theory Spec2Isabelle
  imports Complex_Main
begin

section \<open>JavaScript numbers\<close>

text \<open>
  A JavaScript number is modelled as an exact rational, one of the two infinities, or
  \<^verbatim>\<open>NaN\<close>.  \<^verbatim>\<open>NaN\<close> and the infinities behave as in IEEE 754, and a numeric
  string whose value is too large for a double is read as an infinity.  The sum \<open>+\<close> of
  finite values is exact; the sum \<open>js_add\<close> below overflows to an infinity.  The rounding
  of IEEE doubles and the sign of zero are outside the model.
\<close>

datatype jsnum = Fin rat | PInf | NInf | NaN

instantiation jsnum :: comm_monoid_add
begin

definition zero_jsnum :: jsnum where
  "zero_jsnum = Fin 0"

definition plus_jsnum :: "jsnum \<Rightarrow> jsnum \<Rightarrow> jsnum" where
  "plus_jsnum x y =
     (case (x, y) of
        (NaN, _) \<Rightarrow> NaN
      | (_, NaN) \<Rightarrow> NaN
      | (Fin a, Fin b) \<Rightarrow> Fin (a + b)
      | (PInf, NInf) \<Rightarrow> NaN
      | (NInf, PInf) \<Rightarrow> NaN
      | (PInf, _) \<Rightarrow> PInf
      | (_, PInf) \<Rightarrow> PInf
      | (NInf, _) \<Rightarrow> NInf
      | (_, NInf) \<Rightarrow> NInf)"

instance
proof
  fix a b c :: jsnum
  show "a + b + c = a + (b + c)"
    by (cases a; cases b; cases c) (simp_all add: plus_jsnum_def)
  show "a + b = b + a"
    by (cases a; cases b) (simp_all add: plus_jsnum_def)
  show "0 + a = a"
    by (cases a) (simp_all add: plus_jsnum_def zero_jsnum_def)
qed

end

fun js_neg :: "jsnum \<Rightarrow> jsnum" where
  "js_neg (Fin a) = Fin (- a)"
| "js_neg PInf = NInf"
| "js_neg NInf = PInf"
| "js_neg NaN = NaN"

fun Math_abs :: "jsnum \<Rightarrow> jsnum" where
  "Math_abs (Fin a) = Fin \<bar>a\<bar>"
| "Math_abs PInf = PInf"
| "Math_abs NInf = PInf"
| "Math_abs NaN = NaN"

text \<open>Truthiness of a number: \<^verbatim>\<open>0\<close> and \<^verbatim>\<open>NaN\<close> are falsy.\<close>

fun truthy_num :: "jsnum \<Rightarrow> bool" where
  "truthy_num (Fin a) = (a \<noteq> 0)"
| "truthy_num NaN = False"
| "truthy_num PInf = True"
| "truthy_num NInf = True"

fun is_finite :: "jsnum \<Rightarrow> bool" where
  "is_finite (Fin a) = True"
| "is_finite PInf = False"
| "is_finite NInf = False"
| "is_finite NaN = False"

text \<open>
  The value of a numeric literal as a number: a magnitude of at least
  \<open>2\<^sup>1\<^sup>0\<^sup>2\<^sup>4 - 2\<^sup>9\<^sup>7\<^sup>0\<close>, half a unit in the last place above the largest double,
  rounds to an infinity.
\<close>

definition double_overflow :: rat where
  "double_overflow = 2 ^ 1024 - 2 ^ 970"

definition to_number :: "rat \<Rightarrow> jsnum" where
  "to_number x =
     (if double_overflow \<le> x then PInf
      else if x \<le> - double_overflow then NInf
      else Fin x)"

text \<open>
  The sum and the difference of two numbers with overflow: a finite result whose
  magnitude is beyond the largest double is an infinity, as it is for doubles.  The credits
  aggregator adds and compares with these.  (The rounding of a result that stays in range
  is not modelled; the exact sum \<open>+\<close> is the arithmetic of the summary classifier.)
\<close>

definition js_add :: "jsnum \<Rightarrow> jsnum \<Rightarrow> jsnum" where
  "js_add x y = (case x + y of Fin r \<Rightarrow> to_number r | PInf \<Rightarrow> PInf | NInf \<Rightarrow> NInf | NaN \<Rightarrow> NaN)"

definition js_sub :: "jsnum \<Rightarrow> jsnum \<Rightarrow> jsnum" where
  "js_sub x y = js_add x (js_neg y)"

subsection \<open>Numeric strings\<close>

text \<open>
  Strings are ASCII.  \<^verbatim>\<open>parseFloat\<close> skips leading white space and reads the longest
  prefix that is a \<^verbatim>\<open>StrDecimalLiteral\<close> of ECMAScript (a sign, then \<^verbatim>\<open>Infinity\<close> or
  decimal digits with an optional fraction and exponent); with no such prefix the result
  is \<^verbatim>\<open>NaN\<close>.  \<^verbatim>\<open>Number\<close> applied to a string trims white space at both ends and
  requires the whole rest to be a numeric literal (decimal, or unsigned hexadecimal, octal
  or binary); the empty string is \<^verbatim>\<open>0\<close>.
\<close>

definition is_ws :: "char \<Rightarrow> bool" where
  "is_ws c = (c \<in> set [CHR 0x09, CHR 0x0A, CHR 0x0B, CHR 0x0C, CHR 0x0D, CHR '' ''])"

definition is_digit :: "char \<Rightarrow> bool" where
  "is_digit c = (c \<in> set ''0123456789'')"

definition digit_val :: "char \<Rightarrow> nat" where
  "digit_val c = of_char c - 48"

definition digits_val :: "string \<Rightarrow> nat" where
  "digits_val ds = foldl (\<lambda>a c. 10 * a + digit_val c) 0 ds"

definition pow10 :: "int \<Rightarrow> rat" where
  "pow10 e = (if 0 \<le> e then 10 ^ nat e else 1 / 10 ^ nat (- e))"

definition span_digits :: "string \<Rightarrow> string \<times> string" where
  "span_digits s = (takeWhile is_digit s, dropWhile is_digit s)"

text \<open>An exponent part \<^verbatim>\<open>e\<close>, optional sign, digits; without digits it is not read.\<close>

definition exponent_part :: "string \<Rightarrow> int \<times> string" where
  "exponent_part s =
     (case s of
        [] \<Rightarrow> (0, s)
      | c # r \<Rightarrow>
          if c = CHR ''e'' \<or> c = CHR ''E'' then
            (case r of
               [] \<Rightarrow> (0, s)
             | d # r' \<Rightarrow>
                 if d = CHR ''+'' \<or> d = CHR ''-'' then
                   (let (ds, rest) = span_digits r' in
                    if ds = [] then (0, s)
                    else (if d = CHR ''-'' then - int (digits_val ds) else int (digits_val ds),
                          rest))
                 else
                   (let (ds, rest) = span_digits r in
                    if ds = [] then (0, s) else (int (digits_val ds), rest)))
          else (0, s))"

definition is_prefix :: "string \<Rightarrow> string \<Rightarrow> bool" where
  "is_prefix p s = (take (length p) s = p)"

definition unsigned_decimal :: "string \<Rightarrow> (jsnum \<times> string) option" where
  "unsigned_decimal s =
     (if is_prefix ''Infinity'' s then Some (PInf, drop 8 s)
      else
        (let (ip, r1) = span_digits s in
         case r1 of
           c # r2 \<Rightarrow>
             if c = CHR ''.'' then
               (let (fp, r3) = span_digits r2 in
                if ip = [] \<and> fp = [] then None
                else
                  (let (e, rest) = exponent_part r3 in
                   Some (to_number (of_nat (digits_val (ip @ fp)) * pow10 (e - int (length fp))),
                         rest)))
             else if ip = [] then None
             else
               (let (e, rest) = exponent_part r1 in
                Some (to_number (of_nat (digits_val ip) * pow10 e), rest))
         | [] \<Rightarrow>
             if ip = [] then None else Some (to_number (of_nat (digits_val ip)), [])))"

definition str_decimal :: "string \<Rightarrow> (jsnum \<times> string) option" where
  "str_decimal s =
     (case s of
        [] \<Rightarrow> None
      | c # r \<Rightarrow>
          if c = CHR ''+'' then unsigned_decimal r
          else if c = CHR ''-'' then
            map_option (\<lambda>(v, rest). (js_neg v, rest)) (unsigned_decimal r)
          else unsigned_decimal s)"

definition parseFloat :: "string \<Rightarrow> jsnum" where
  "parseFloat s =
     (case str_decimal (dropWhile is_ws s) of
        None \<Rightarrow> NaN
      | Some (v, _) \<Rightarrow> v)"

definition radix_digit :: "char \<Rightarrow> nat option" where
  "radix_digit c =
     (let n = (of_char c :: nat) in
      if 48 \<le> n \<and> n \<le> 57 then Some (n - 48)
      else if 97 \<le> n \<and> n \<le> 102 then Some (n - 87)
      else if 65 \<le> n \<and> n \<le> 70 then Some (n - 55)
      else None)"

definition radix_val :: "nat \<Rightarrow> string \<Rightarrow> jsnum" where
  "radix_val b ds =
     (if ds \<noteq> [] \<and> list_all (\<lambda>c. case radix_digit c of None \<Rightarrow> False | Some d \<Rightarrow> d < b) ds
      then to_number (of_nat (foldl (\<lambda>a c. b * a + the (radix_digit c)) 0 ds))
      else NaN)"

definition trim :: "string \<Rightarrow> string" where
  "trim s = rev (dropWhile is_ws (rev (dropWhile is_ws s)))"

definition Number_of_string :: "string \<Rightarrow> jsnum" where
  "Number_of_string s =
     (let t = trim s in
      if t = [] then Fin 0
      else if is_prefix ''0x'' t \<or> is_prefix ''0X'' t then radix_val 16 (drop 2 t)
      else if is_prefix ''0o'' t \<or> is_prefix ''0O'' t then radix_val 8 (drop 2 t)
      else if is_prefix ''0b'' t \<or> is_prefix ''0B'' t then radix_val 2 (drop 2 t)
      else
        (case str_decimal t of
           Some (v, []) \<Rightarrow> v
         | _ \<Rightarrow> NaN))"

section \<open>Dates\<close>

text \<open>
  A \<^verbatim>\<open>Date\<close> is its time value, an integer number of milliseconds since the epoch, in
  UTC.  The functions below are the day, year, month and date computations of the
  ECMAScript specification; the year is found by a search upwards from an estimate that is
  never too large.
\<close>

definition msPerDay :: int where
  "msPerDay = 86400000"

definition Day :: "int \<Rightarrow> int" where
  "Day t = t div msPerDay"

definition DaysInYear :: "int \<Rightarrow> int" where
  "DaysInYear y =
     (if \<not> 4 dvd y then 365
      else if \<not> 100 dvd y then 366
      else if \<not> 400 dvd y then 365
      else 366)"

definition DayFromYear :: "int \<Rightarrow> int" where
  "DayFromYear y =
     365 * (y - 1970) + (y - 1969) div 4 - (y - 1901) div 100 + (y - 1601) div 400"

lemma div_succ:
  fixes x n :: int
  assumes n: "0 < n"
  shows "(x + 1) div n = x div n + (if n dvd x + 1 then 1 else 0)"
proof (cases "x mod n + 1 < n")
  case True
  have eq: "x + 1 = n * (x div n) + (x mod n + 1)" by simp
  have nonneg: "0 \<le> x mod n + 1" using n pos_mod_sign [of n x] by linarith
  have d: "(x + 1) div n = x div n" by (rule int_div_pos_eq [OF eq nonneg True])
  have m: "(x + 1) mod n = x mod n + 1" by (rule int_mod_pos_eq [OF eq nonneg True])
  have "\<not> n dvd x + 1"
    using m n pos_mod_sign [of n x] unfolding dvd_eq_mod_eq_0 by linarith
  with d show ?thesis by simp
next
  case False
  with pos_mod_bound [of n x] n have r: "x mod n = n - 1" by linarith
  have "x + 1 = n * (x div n) + (x mod n) + 1" by simp
  also have "\<dots> = n * (x div n + 1)" by (simp add: r algebra_simps)
  finally have eq: "x + 1 = n * (x div n + 1)" .
  have "n dvd x + 1" by (subst eq) simp
  moreover have "(x + 1) div n = x div n + 1" using n by (subst eq) simp
  ultimately show ?thesis by simp
qed

lemma dvd_shift:
  fixes y n c :: int
  assumes "n dvd c"
  shows "n dvd (y - c) \<longleftrightarrow> n dvd y"
  using assms by (simp add: dvd_diff_left_iff)

lemma DayFromYear_Suc: "DayFromYear (y + 1) = DayFromYear y + DaysInYear y"
proof -
  have a: "(y + 1 - 1969) div 4 = (y - 1969) div 4 + (if 4 dvd y then 1 else 0)"
    using div_succ [of 4 "y - 1969"] dvd_shift [of 4 1968 y] by simp
  have b: "(y + 1 - 1901) div 100 = (y - 1901) div 100 + (if 100 dvd y then 1 else 0)"
    using div_succ [of 100 "y - 1901"] dvd_shift [of 100 1900 y] by simp
  have c: "(y + 1 - 1601) div 400 = (y - 1601) div 400 + (if 400 dvd y then 1 else 0)"
    using div_succ [of 400 "y - 1601"] dvd_shift [of 400 1600 y] by simp
  have d1: "400 dvd y \<Longrightarrow> 100 dvd y" by (rule dvd_trans [of 100 400 y]) simp_all
  have d2: "100 dvd y \<Longrightarrow> 4 dvd y" by (rule dvd_trans [of 4 100 y]) simp_all
  have "DaysInYear y = 365 + (if 4 dvd y then 1 else 0) - (if 100 dvd y then 1 else 0)
          + (if 400 dvd y then 1 else 0)"
    using d1 d2 by (auto simp: DaysInYear_def)
  then show ?thesis
    unfolding DayFromYear_def a b c by (simp add: algebra_simps)
qed

lemma DaysInYear_cases: "DaysInYear y = 365 \<or> DaysInYear y = 366"
  by (simp add: DaysInYear_def)

lemma DayFromYear_less: "DayFromYear y < DayFromYear (y + 1)"
  using DaysInYear_cases [of y] unfolding DayFromYear_Suc by linarith

function year_search :: "int \<Rightarrow> int \<Rightarrow> int" where
  "year_search d y = (if DayFromYear (y + 1) \<le> d then year_search d (y + 1) else y)"
  by pat_completeness auto
termination
proof (relation "measure (\<lambda>(d, y). nat (d - DayFromYear y))")
  show "wf (measure (\<lambda>(d, y). nat (d - DayFromYear y)))" by simp
next
  fix d y :: int
  assume "DayFromYear (y + 1) \<le> d"
  then show "((d, y + 1), (d, y)) \<in> measure (\<lambda>(d, y). nat (d - DayFromYear y))"
    using DayFromYear_less [of y] by simp
qed

declare year_search.simps [simp del]

definition year_guess :: "int \<Rightarrow> int" where
  "year_guess d = 1970 + (if 0 \<le> d then d div 366 else d div 365)"

text \<open>The largest year whose first day is not after the day of \<open>t\<close>.\<close>

definition YearFromTime :: "int \<Rightarrow> int" where
  "YearFromTime t = year_search (Day t) (year_guess (Day t))"

definition InLeapYear :: "int \<Rightarrow> int" where
  "InLeapYear t = (if DaysInYear (YearFromTime t) = 366 then 1 else 0)"

definition DayWithinYear :: "int \<Rightarrow> int" where
  "DayWithinYear t = Day t - DayFromYear (YearFromTime t)"

text \<open>Month (0 to 11) and day of the month from the day within the year and the leap flag.\<close>

definition month_of :: "int \<Rightarrow> int \<Rightarrow> int" where
  "month_of d l =
     (if d < 31 then 0
      else if d < 59 + l then 1
      else if d < 90 + l then 2
      else if d < 120 + l then 3
      else if d < 151 + l then 4
      else if d < 181 + l then 5
      else if d < 212 + l then 6
      else if d < 243 + l then 7
      else if d < 273 + l then 8
      else if d < 304 + l then 9
      else if d < 334 + l then 10
      else 11)"

definition date_of :: "int \<Rightarrow> int \<Rightarrow> int" where
  "date_of d l =
     (let m = month_of d l in
      if m = 0 then d + 1
      else if m = 1 then d - 30
      else if m = 2 then d - 58 - l
      else if m = 3 then d - 89 - l
      else if m = 4 then d - 119 - l
      else if m = 5 then d - 150 - l
      else if m = 6 then d - 180 - l
      else if m = 7 then d - 211 - l
      else if m = 8 then d - 242 - l
      else if m = 9 then d - 272 - l
      else if m = 10 then d - 303 - l
      else d - 333 - l)"

definition MonthFromTime :: "int \<Rightarrow> int" where
  "MonthFromTime t = month_of (DayWithinYear t) (InLeapYear t)"

definition DateFromTime :: "int \<Rightarrow> int" where
  "DateFromTime t = date_of (DayWithinYear t) (InLeapYear t)"

definition HourFromTime :: "int \<Rightarrow> int" where
  "HourFromTime t = (t div 3600000) mod 24"

definition MinFromTime :: "int \<Rightarrow> int" where
  "MinFromTime t = (t div 60000) mod 60"

definition SecFromTime :: "int \<Rightarrow> int" where
  "SecFromTime t = (t div 1000) mod 60"

definition msFromTime :: "int \<Rightarrow> int" where
  "msFromTime t = t mod 1000"

subsection \<open>Formatting\<close>

definition digit_char :: "nat \<Rightarrow> char" where
  "digit_char n = char_of (48 + n)"

fun decimal :: "nat \<Rightarrow> string" where
  "decimal n = (if n < 10 then [digit_char n] else decimal (n div 10) @ [digit_char (n mod 10)])"

declare decimal.simps [simp del]

definition zero_pad :: "nat \<Rightarrow> nat \<Rightarrow> string" where
  "zero_pad minLength n = replicate (minLength - length (decimal n)) (CHR ''0'') @ decimal n"

text \<open>
  \<^verbatim>\<open>toISOString\<close> throws a \<^verbatim>\<open>RangeError\<close> (here \<open>None\<close>) on an invalid date, which
  is what \<^verbatim>\<open>new Date(v)\<close> is when \<open>v\<close> is beyond 8.64e15 milliseconds from the epoch.
  Years outside 0..9999 are written with a sign and six digits.
\<close>

definition toISOString :: "int \<Rightarrow> string option" where
  "toISOString t =
     (if \<bar>t\<bar> > 8640000000000000 then None
      else
        (let y = YearFromTime t;
             ys = (if 0 \<le> y \<and> y \<le> 9999 then zero_pad 4 (nat y)
                   else (if y < 0 then ''-'' else ''+'') @ zero_pad 6 (nat \<bar>y\<bar>))
         in Some (ys @ ''-'' @ zero_pad 2 (nat (MonthFromTime t + 1))
                  @ ''-'' @ zero_pad 2 (nat (DateFromTime t))
                  @ ''T'' @ zero_pad 2 (nat (HourFromTime t))
                  @ '':'' @ zero_pad 2 (nat (MinFromTime t))
                  @ '':'' @ zero_pad 2 (nat (SecFromTime t))
                  @ ''.'' @ zero_pad 3 (nat (msFromTime t)) @ ''Z'')))"

text \<open>\<^verbatim>\<open>isoDate(d) = d.toISOString().slice(0, 10)\<close>.\<close>

definition isoDate :: "int \<Rightarrow> string option" where
  "isoDate d = map_option (take 10) (toISOString d)"

section \<open>The response cache\<close>

text \<open>
  The server keeps one process-wide \<^verbatim>\<open>Map\<close> from a key string to an entry
  \<^verbatim>\<open>{ expiresAt, value }\<close>.  The clock \<^verbatim>\<open>Date.now()\<close> is an integer number of
  milliseconds; every function that reads it takes the reading as its first argument, and
  every function that mutates the map returns the new map.
\<close>

record 'v cache_entry =
  expiresAt :: int
  cvalue :: 'v

type_synonym 'v cache = "string \<rightharpoonup> 'v cache_entry"

definition CACHE_TTL_MS :: int where
  "CACHE_TTL_MS = 60000"

text \<open>
  \<^verbatim>\<open>cacheGet\<close> returns \<^verbatim>\<open>null\<close> (here \<open>None\<close>) on a miss and on an expired entry,
  which it deletes; otherwise the stored value.  An entry is an object, so the test
  \<^verbatim>\<open>!hit\<close> is true exactly when the key is not in the map.
\<close>

definition cacheGet :: "int \<Rightarrow> 'v cache \<Rightarrow> string \<Rightarrow> 'v option \<times> 'v cache" where
  "cacheGet now cache key =
     (case cache key of
        None \<Rightarrow> (None, cache)
      | Some hit \<Rightarrow>
          if now > expiresAt hit then (None, cache(key := None))
          else (Some (cvalue hit), cache))"

definition cacheSet :: "int \<Rightarrow> 'v cache \<Rightarrow> string \<Rightarrow> 'v \<Rightarrow> 'v cache" where
  "cacheSet now cache key v =
     cache(key \<mapsto> \<lparr>expiresAt = now + CACHE_TTL_MS, cvalue = v\<rparr>)"

section \<open>The costs query\<close>

datatype granularity = DAILY | MONTHLY

datatype group_by = SERVICE | NONE

fun granularity_str :: "granularity \<Rightarrow> string" where
  "granularity_str DAILY = ''DAILY''"
| "granularity_str MONTHLY = ''MONTHLY''"

fun group_by_str :: "group_by \<Rightarrow> string" where
  "group_by_str SERVICE = ''SERVICE''"
| "group_by_str NONE = ''NONE''"

text \<open>
  The query string as the schema sees it: each of the four parameters is absent or a
  string.  (A repeated or nested parameter, which the schema rejects, is not represented.)
\<close>

record raw_query =
  raw_start :: "string option"
  raw_end :: "string option"
  raw_granularity :: "string option"
  raw_groupBy :: "string option"

record costs_query =
  q_start :: "string option"
  q_end :: "string option"
  q_granularity :: granularity
  q_groupBy :: group_by

text \<open>The regular expression \<^verbatim>\<open>/^\d{4}-\d{2}-\d{2}$/\<close>.\<close>

definition date_regex :: "string \<Rightarrow> bool" where
  "date_regex s =
     (case s of
        [y1, y2, y3, y4, h1, m1, m2, h2, d1, d2] \<Rightarrow>
          is_digit y1 \<and> is_digit y2 \<and> is_digit y3 \<and> is_digit y4 \<and> h1 = CHR ''-''
          \<and> is_digit m1 \<and> is_digit m2 \<and> h2 = CHR ''-'' \<and> is_digit d1 \<and> is_digit d2
      | _ \<Rightarrow> False)"

definition parse_granularity :: "string option \<Rightarrow> granularity option" where
  "parse_granularity x =
     (case x of
        None \<Rightarrow> Some DAILY
      | Some s \<Rightarrow>
          if s = ''DAILY'' then Some DAILY
          else if s = ''MONTHLY'' then Some MONTHLY
          else None)"

definition parse_groupBy :: "string option \<Rightarrow> group_by option" where
  "parse_groupBy x =
     (case x of
        None \<Rightarrow> Some SERVICE
      | Some s \<Rightarrow>
          if s = ''SERVICE'' then Some SERVICE
          else if s = ''NONE'' then Some NONE
          else None)"

definition optional_date_ok :: "string option \<Rightarrow> bool" where
  "optional_date_ok x = (case x of None \<Rightarrow> True | Some s \<Rightarrow> date_regex s)"

text \<open>
  \<^verbatim>\<open>costsQuerySchema.safeParse\<close>: the parsed query, or the names of the fields that
  failed.
\<close>

definition costsQuerySchema :: "raw_query \<Rightarrow> string list + costs_query" where
  "costsQuerySchema rq =
     (let bad =
        (if optional_date_ok (raw_start rq) then [] else [''start''])
        @ (if optional_date_ok (raw_end rq) then [] else [''end''])
        @ (if parse_granularity (raw_granularity rq) = None then [''granularity''] else [])
        @ (if parse_groupBy (raw_groupBy rq) = None then [''groupBy''] else [])
      in
      case (parse_granularity (raw_granularity rq), parse_groupBy (raw_groupBy rq)) of
        (Some g, Some gb) \<Rightarrow>
          if bad = [] then
            Inr \<lparr>q_start = raw_start rq, q_end = raw_end rq, q_granularity = g, q_groupBy = gb\<rparr>
          else Inl bad
      | _ \<Rightarrow> Inl bad)"

subsection \<open>The cache key\<close>

text \<open>
  \<^verbatim>\<open>JSON.stringify\<close> of an object with the four string properties \<^verbatim>\<open>start\<close>,
  \<^verbatim>\<open>end\<close>, \<^verbatim>\<open>granularity\<close> and \<^verbatim>\<open>groupBy\<close>, in this order.  A string is written
  between double quotes, with the double quote, the backslash and the control characters
  escaped.
\<close>

definition hex_char :: "nat \<Rightarrow> char" where
  "hex_char n = (if n < 10 then char_of (48 + n) else char_of (87 + n))"

definition json_escape :: "char \<Rightarrow> string" where
  "json_escape c =
     (let n = (of_char c :: nat) in
      if c = CHR 0x22 then [CHR 0x5C, CHR 0x22]
      else if c = CHR 0x5C then [CHR 0x5C, CHR 0x5C]
      else if n = 8 then [CHR 0x5C, CHR ''b'']
      else if n = 9 then [CHR 0x5C, CHR ''t'']
      else if n = 10 then [CHR 0x5C, CHR ''n'']
      else if n = 12 then [CHR 0x5C, CHR ''f'']
      else if n = 13 then [CHR 0x5C, CHR ''r'']
      else if n < 32 then
        [CHR 0x5C, CHR ''u'', CHR ''0'', CHR ''0'', hex_char (n div 16), hex_char (n mod 16)]
      else [c])"

definition json_string :: "string \<Rightarrow> string" where
  "json_string s = [CHR 0x22] @ concat (map json_escape s) @ [CHR 0x22]"

definition cacheKey :: "string \<Rightarrow> string \<Rightarrow> granularity \<Rightarrow> group_by \<Rightarrow> string" where
  "cacheKey start end' g gb =
     ''{'' @ json_string ''start'' @ '':'' @ json_string start
     @ '','' @ json_string ''end'' @ '':'' @ json_string end'
     @ '','' @ json_string ''granularity'' @ '':'' @ json_string (granularity_str g)
     @ '','' @ json_string ''groupBy'' @ '':'' @ json_string (group_by_str gb) @ ''}''"

section \<open>The billing API\<close>

subsection \<open>Requests\<close>

record group_definition =
  gd_Type :: string
  gd_Key :: string

datatype expression =
    Dimensions string "string list"
  | Not_expr expression

record ce_request =
  TimePeriod_Start :: string
  TimePeriod_End :: string
  Granularity :: granularity
  Metrics_req :: "string list"
  GroupBy :: "group_definition list option"
  Filter :: "expression option"

subsection \<open>Responses\<close>

text \<open>
  Every field the handlers read through \<^verbatim>\<open>?.\<close>, \<^verbatim>\<open>??\<close> or \<^verbatim>\<open>||\<close> is optional.
\<close>

record metric_value =
  Amount :: "string option"
  Unit :: "string option"

type_synonym metrics = "string \<rightharpoonup> metric_value"

record group =
  Keys :: "string list option"
  Metrics :: "metrics option"

record date_interval =
  Start :: "string option"
  End :: "string option"

record result_by_time =
  TimePeriod :: "date_interval option"
  Total :: "metrics option"
  Groups :: "group list option"

record ce_response =
  ResultsByTime :: "result_by_time list option"

text \<open>A rejected call: the error object, of which the handlers read two properties.\<close>

record js_error =
  err_name :: "string option"
  err_message :: "string option"

type_synonym 'a settled = "js_error + 'a"

text \<open>
  \<^verbatim>\<open>Promise.all\<close> of two promises that have both settled: it rejects with the error of the
  promise that rejected first, which the flag decides when both did.
\<close>

definition Promise_all :: "bool \<Rightarrow> 'a settled \<Rightarrow> 'b settled \<Rightarrow> ('a \<times> 'b) settled" where
  "Promise_all second_first p1 p2 =
     (case (p1, p2) of
        (Inr a, Inr b) \<Rightarrow> Inr (a, b)
      | (Inl e1, Inr b) \<Rightarrow> Inl e1
      | (Inr a, Inl e2) \<Rightarrow> Inl e2
      | (Inl e1, Inl e2) \<Rightarrow> Inl (if second_first then e2 else e1))"

section \<open>The result normalizer\<close>

record metric =
  amount :: jsnum
  unit :: string

record metric_set =
  m_unblended :: metric
  m_amortized :: metric
  m_blended :: metric
  m_usage :: metric
  m_netUnblended :: metric
  m_netAmortized :: metric

record norm_group =
  g_keys :: "string list"
  g_metrics :: metric_set

record period_result =
  r_start :: "string option"
  r_end :: "string option"
  r_total :: metric_set
  r_groups :: "norm_group list"

text \<open>\<^verbatim>\<open>Number(obj?.Amount ?? 0)\<close> and \<^verbatim>\<open>obj?.Unit ?? "USD"\<close> for \<^verbatim>\<open>obj = m?.[key]\<close>.\<close>

definition getMetric :: "metrics option \<Rightarrow> string \<Rightarrow> metric" where
  "getMetric m key =
     (let obj = (case m of None \<Rightarrow> None | Some mm \<Rightarrow> mm key) in
      \<lparr>amount =
         (case (case obj of None \<Rightarrow> None | Some ob \<Rightarrow> Amount ob) of
            None \<Rightarrow> Fin 0
          | Some a \<Rightarrow> Number_of_string a),
       unit =
         (case (case obj of None \<Rightarrow> None | Some ob \<Rightarrow> Unit ob) of
            None \<Rightarrow> ''USD''
          | Some u \<Rightarrow> u)\<rparr>)"

definition metricSet :: "metrics option \<Rightarrow> metric_set" where
  "metricSet m =
     \<lparr>m_unblended = getMetric m ''UnblendedCost'',
      m_amortized = getMetric m ''AmortizedCost'',
      m_blended = getMetric m ''BlendedCost'',
      m_usage = getMetric m ''UsageQuantity'',
      m_netUnblended = getMetric m ''NetUnblendedCost'',
      m_netAmortized = getMetric m ''NetAmortizedCost''\<rparr>"

definition or_empty :: "'a list option \<Rightarrow> 'a list" where
  "or_empty x = (case x of None \<Rightarrow> [] | Some xs \<Rightarrow> xs)"

definition normalize_group :: "group \<Rightarrow> norm_group" where
  "normalize_group g = \<lparr>g_keys = or_empty (Keys g), g_metrics = metricSet (Metrics g)\<rparr>"

definition normalize_result :: "result_by_time \<Rightarrow> period_result" where
  "normalize_result r =
     \<lparr>r_start = (case TimePeriod r of None \<Rightarrow> None | Some tp \<Rightarrow> Start tp),
      r_end = (case TimePeriod r of None \<Rightarrow> None | Some tp \<Rightarrow> End tp),
      r_total = metricSet (Total r),
      r_groups = map normalize_group (or_empty (Groups r))\<rparr>"

definition results :: "ce_response \<Rightarrow> period_result list" where
  "results out = map normalize_result (or_empty (ResultsByTime out))"

section \<open>The summary classifier\<close>

record summary =
  s_usage :: jsnum
  s_credit :: jsnum
  s_tax :: jsnum
  s_refund :: jsnum
  s_other :: jsnum
  s_total :: jsnum

definition summary0 :: summary where
  "summary0 =
     \<lparr>s_usage = 0, s_credit = 0, s_tax = 0, s_refund = 0, s_other = 0, s_total = 0\<rparr>"

text \<open>\<^verbatim>\<open>g.Keys?.[0]\<close>: undefined when there are no keys.\<close>

definition first_key :: "group \<Rightarrow> string option" where
  "first_key g =
     (case Keys g of
        None \<Rightarrow> None
      | Some [] \<Rightarrow> None
      | Some (k # _) \<Rightarrow> Some k)"

text \<open>
  \<^verbatim>\<open>parseFloat(g.Metrics?.UnblendedCost?.Amount || "0")\<close>: an absent and an empty amount
  are read as the string \<^verbatim>\<open>"0"\<close>.
\<close>

definition unblended_amount :: "group \<Rightarrow> jsnum" where
  "unblended_amount g =
     (let raw =
        (case Metrics g of
           None \<Rightarrow> None
         | Some m \<Rightarrow> (case m ''UnblendedCost'' of None \<Rightarrow> None | Some ob \<Rightarrow> Amount ob))
      in parseFloat (case raw of None \<Rightarrow> ''0'' | Some a \<Rightarrow> if a = [] then ''0'' else a))"

definition classify_group :: "summary \<Rightarrow> group \<Rightarrow> summary" where
  "classify_group s g =
     (let type = first_key g;
          amount = unblended_amount g;
          s1 = s\<lparr>s_total := s_total s + amount\<rparr>
      in
      if type = Some ''Credit'' then s1\<lparr>s_credit := s_credit s1 + amount\<rparr>
      else if type = Some ''Tax'' then s1\<lparr>s_tax := s_tax s1 + amount\<rparr>
      else if type = Some ''Refund'' then s1\<lparr>s_refund := s_refund s1 + amount\<rparr>
      else if type = Some ''Usage'' then s1\<lparr>s_usage := s_usage s1 + amount\<rparr>
      else s1\<lparr>s_other := s_other s1 + amount\<rparr>)"

definition classify_period :: "summary \<Rightarrow> result_by_time \<Rightarrow> summary" where
  "classify_period s r = foldl classify_group s (or_empty (Groups r))"

definition classify :: "ce_response \<Rightarrow> summary" where
  "classify summaryOut = foldl classify_period summary0 (or_empty (ResultsByTime summaryOut))"

section \<open>The costs handler\<close>

record payload =
  p_start :: string
  p_end :: string
  p_granularity :: granularity
  p_groupBy :: group_by
  p_results :: "period_result list"
  p_summary :: summary

record credit_entry =
  service :: string
  svc_amount :: jsnum

record credits_payload =
  total_used :: jsnum
  by_service :: "credit_entry list"

datatype body =
    CostsBody payload
  | InvalidQuery "string list"
  | ErrorBody string string
  | CreditsBody credits_payload

record response =
  status :: nat
  body :: body

text \<open>The detail request and the record-type summary request.\<close>

definition cmd :: "costs_query \<Rightarrow> string \<Rightarrow> string \<Rightarrow> ce_request" where
  "cmd q start end' =
     \<lparr>TimePeriod_Start = start,
      TimePeriod_End = end',
      Granularity = q_granularity q,
      Metrics_req =
        [''UnblendedCost'', ''AmortizedCost'', ''BlendedCost'', ''UsageQuantity'',
         ''NetUnblendedCost'', ''NetAmortizedCost''],
      GroupBy =
        (if q_groupBy q = SERVICE then Some [\<lparr>gd_Type = ''DIMENSION'', gd_Key = ''SERVICE''\<rparr>]
         else None),
      Filter = Some (Not_expr (Dimensions ''RECORD_TYPE'' [''Credit'', ''Refund'']))\<rparr>"

definition summaryCmd :: "string \<Rightarrow> string \<Rightarrow> ce_request" where
  "summaryCmd start end' =
     \<lparr>TimePeriod_Start = start,
      TimePeriod_End = end',
      Granularity = MONTHLY,
      Metrics_req = [''UnblendedCost''],
      GroupBy = Some [\<lparr>gd_Type = ''DIMENSION'', gd_Key = ''RECORD_TYPE''\<rparr>],
      Filter = None\<rparr>"

text \<open>
  The message of the 500 response:
  \<^verbatim>\<open>err?.name ? `${err.name}: ${err.message ?? ""}` : "Unknown error"\<close>.
\<close>

definition error_message :: "js_error \<Rightarrow> string" where
  "error_message err =
     (case err_name err of
        None \<Rightarrow> ''Unknown error''
      | Some n \<Rightarrow>
          if n = [] then ''Unknown error''
          else n @ '': '' @ (case err_message err of None \<Rightarrow> [] | Some m \<Rightarrow> m))"

text \<open>
  The handler runs in two synchronous segments around the \<^verbatim>\<open>await\<close>.  The first
  validates the query, resolves the dates, looks the key up in the cache and builds the two
  requests; it ends with a response (400, or 200 from the cache), with an uncaught
  \<^verbatim>\<open>RangeError\<close> from \<^verbatim>\<open>isoDate\<close> (thrown before the \<^verbatim>\<open>try\<close>, so that no response is
  sent), or waiting for the two calls.  The second segment runs when both calls have
  settled, on the cache as it is then.  The clock is read three times: \<open>now\<close> by
  \<^verbatim>\<open>new Date()\<close>, \<open>t_get\<close> inside \<^verbatim>\<open>cacheGet\<close> and \<open>t_set\<close> inside \<^verbatim>\<open>cacheSet\<close>.
\<close>

record costs_ctx =
  ctx_q :: costs_query
  ctx_start :: string
  ctx_end :: string
  ctx_cacheKey :: string

datatype costs_step =
    Respond response
  | Uncaught
  | Await costs_ctx ce_request ce_request

text \<open>
  \<^verbatim>\<open>q.end ?? isoDate(now)\<close> and
  \<^verbatim>\<open>q.start ?? isoDate(new Date(now.getTime() - 30 * 24 * 60 * 60 * 1000))\<close>; the
  right operand is evaluated only when the left one is undefined.
\<close>

definition resolve_end :: "int \<Rightarrow> costs_query \<Rightarrow> string option" where
  "resolve_end now q = (case q_end q of Some e \<Rightarrow> Some e | None \<Rightarrow> isoDate now)"

definition resolve_start :: "int \<Rightarrow> costs_query \<Rightarrow> string option" where
  "resolve_start now q =
     (case q_start q of
        Some s \<Rightarrow> Some s
      | None \<Rightarrow> isoDate (now - 30 * 24 * 60 * 60 * 1000))"

definition costs_begin ::
  "int \<Rightarrow> int \<Rightarrow> payload cache \<Rightarrow> raw_query \<Rightarrow> costs_step \<times> payload cache" where
  "costs_begin now t_get cache rq =
     (case costsQuerySchema rq of
        Inl details \<Rightarrow> (Respond \<lparr>status = 400, body = InvalidQuery details\<rparr>, cache)
      | Inr q \<Rightarrow>
          (case resolve_end now q of
             None \<Rightarrow> (Uncaught, cache)
           | Some end' \<Rightarrow>
               (case resolve_start now q of
                  None \<Rightarrow> (Uncaught, cache)
                | Some start \<Rightarrow>
                    (let key = cacheKey start end' (q_granularity q) (q_groupBy q);
                         (cached, cache') = cacheGet t_get cache key
                     in
                     case cached of
                       Some p \<Rightarrow> (Respond \<lparr>status = 200, body = CostsBody p\<rparr>, cache')
                     | None \<Rightarrow>
                         (Await \<lparr>ctx_q = q, ctx_start = start, ctx_end = end',
                                  ctx_cacheKey = key\<rparr>
                            (cmd q start end') (summaryCmd start end'),
                          cache')))))"

definition costs_finish ::
  "int \<Rightarrow> payload cache \<Rightarrow> costs_ctx \<Rightarrow> (ce_response \<times> ce_response) settled
     \<Rightarrow> response \<times> payload cache" where
  "costs_finish t_set cache ctx joined =
     (case joined of
        Inl err \<Rightarrow>
          (\<lparr>status = 500,
            body = ErrorBody ''Failed to fetch costs from AWS Cost Explorer'' (error_message err)\<rparr>,
           cache)
      | Inr (out, summaryOut) \<Rightarrow>
          (let p = \<lparr>p_start = ctx_start ctx, p_end = ctx_end ctx,
                      p_granularity = q_granularity (ctx_q ctx),
                      p_groupBy = q_groupBy (ctx_q ctx),
                      p_results = results out,
                      p_summary = classify summaryOut\<rparr>
           in (\<lparr>status = 200, body = CostsBody p\<rparr>, cacheSet t_set cache (ctx_cacheKey ctx) p)))"

text \<open>
  One request from its arrival to its response.  \<open>send\<close> is the outcome of each
  upstream call.  While the request awaits the two calls, segments of other requests may
  run and look up or write the shared cache: \<open>during\<close> is what they make of it, so the
  second segment runs on \<open>during c\<close>, where \<open>c\<close> is the cache the first segment left.
  The response is \<open>None\<close> when none is sent.
\<close>

definition handle_costs ::
  "int \<Rightarrow> int \<Rightarrow> int \<Rightarrow> bool \<Rightarrow> (ce_request \<Rightarrow> ce_response settled)
     \<Rightarrow> (payload cache \<Rightarrow> payload cache) \<Rightarrow> payload cache
     \<Rightarrow> raw_query \<Rightarrow> response option \<times> payload cache" where
  "handle_costs now t_get t_set second_first send during cache rq =
     (case costs_begin now t_get cache rq of
        (Respond r, c) \<Rightarrow> (Some r, c)
      | (Uncaught, c) \<Rightarrow> (None, c)
      | (Await ctx c1 c2, c) \<Rightarrow>
          (let (r, c') =
             costs_finish t_set (during c) ctx (Promise_all second_first (send c1) (send c2))
           in (Some r, c')))"

section \<open>The credits aggregator\<close>

text \<open>\<^verbatim>\<open>g.Keys?.[0] || "Unknown"\<close>: an absent and an empty key are replaced.\<close>

definition service_of :: "group \<Rightarrow> string" where
  "service_of g =
     (case first_key g of
        None \<Rightarrow> ''Unknown''
      | Some k \<Rightarrow> if k = [] then ''Unknown'' else k)"

text \<open>
  The \<^verbatim>\<open>Map\<close> from service to amount, as the list of its entries in insertion order:
  setting a key that is present keeps its place.
\<close>

fun map_set :: "('k \<times> 'v) list \<Rightarrow> 'k \<Rightarrow> 'v \<Rightarrow> ('k \<times> 'v) list" where
  "map_set [] k v = [(k, v)]"
| "map_set ((k', v') # m) k v = (if k' = k then (k, v) # m else (k', v') # map_set m k v)"

text \<open>\<^verbatim>\<open>serviceMap.get(service) || 0\<close>: a missing entry, \<^verbatim>\<open>0\<close> and \<^verbatim>\<open>NaN\<close> give 0.\<close>

definition or_zero :: "jsnum option \<Rightarrow> jsnum" where
  "or_zero x = (case x of None \<Rightarrow> 0 | Some v \<Rightarrow> if truthy_num v then v else 0)"

definition credits_group ::
  "jsnum \<times> (string \<times> jsnum) list \<Rightarrow> group \<Rightarrow> jsnum \<times> (string \<times> jsnum) list" where
  "credits_group acc g =
     (let (totalUsed, serviceMap) = acc;
          service = service_of g;
          amount = unblended_amount g
      in (js_add totalUsed amount,
          map_set serviceMap service (js_add (or_zero (map_of serviceMap service)) amount)))"

definition credits_period ::
  "jsnum \<times> (string \<times> jsnum) list \<Rightarrow> result_by_time \<Rightarrow> jsnum \<times> (string \<times> jsnum) list" where
  "credits_period acc r = foldl credits_group acc (or_empty (Groups r))"

definition credits_fold :: "ce_response \<Rightarrow> jsnum \<times> (string \<times> jsnum) list" where
  "credits_fold out = foldl credits_period (0, []) (or_empty (ResultsByTime out))"

text \<open>
  \<^verbatim>\<open>Array.prototype.sort\<close> with a comparison function: a stable sort, written as an
  insertion sort.  An element moves behind another only when the comparison is a number
  greater than zero; \<^verbatim>\<open>NaN\<close> counts as zero.  For a consistent comparison function every
  stable sort gives this result.  When a comparison is \<^verbatim>\<open>NaN\<close> the function is not
  consistent and ECMAScript leaves the order to the implementation; the order of this
  insertion sort is then one possible order and need not be that of a given runtime.
\<close>

fun sort_gt :: "jsnum \<Rightarrow> bool" where
  "sort_gt (Fin a) = (0 < a)"
| "sort_gt PInf = True"
| "sort_gt NInf = False"
| "sort_gt NaN = False"

fun insert_by :: "('a \<Rightarrow> 'a \<Rightarrow> jsnum) \<Rightarrow> 'a \<Rightarrow> 'a list \<Rightarrow> 'a list" where
  "insert_by comparefn x [] = [x]"
| "insert_by comparefn x (y # ys) =
     (if sort_gt (comparefn x y) then y # insert_by comparefn x ys else x # y # ys)"

definition Array_sort :: "('a \<Rightarrow> 'a \<Rightarrow> jsnum) \<Rightarrow> 'a list \<Rightarrow> 'a list" where
  "Array_sort comparefn xs = foldr (insert_by comparefn) xs []"

definition by_amount_desc :: "credit_entry \<Rightarrow> credit_entry \<Rightarrow> jsnum" where
  "by_amount_desc a b = js_sub (svc_amount b) (svc_amount a)"

definition credits_payload_of :: "ce_response \<Rightarrow> credits_payload" where
  "credits_payload_of out =
     (let (totalUsed, serviceMap) = credits_fold out in
      \<lparr>total_used = Math_abs totalUsed,
       by_service =
         Array_sort by_amount_desc
           (map (\<lambda>(s, a). \<lparr>service = s, svc_amount = Math_abs a\<rparr>) serviceMap)\<rparr>)"

definition creditsCmd :: "string \<Rightarrow> string \<Rightarrow> ce_request" where
  "creditsCmd start end' =
     \<lparr>TimePeriod_Start = start,
      TimePeriod_End = end',
      Granularity = MONTHLY,
      Metrics_req = [''UnblendedCost''],
      GroupBy = Some [\<lparr>gd_Type = ''DIMENSION'', gd_Key = ''SERVICE''\<rparr>],
      Filter = Some (Dimensions ''RECORD_TYPE'' [''Credit''])\<rparr>"

definition credits_fallback :: response where
  "credits_fallback = \<lparr>status = 200, body = CreditsBody \<lparr>total_used = 0, by_service = []\<rparr>\<rparr>"

text \<open>
  The whole handler is inside \<^verbatim>\<open>try\<close>: a \<^verbatim>\<open>RangeError\<close> from \<^verbatim>\<open>isoDate\<close> and a
  rejected upstream call both end in the fallback response.  The clock is read twice.
\<close>

definition handle_credits ::
  "int \<Rightarrow> int \<Rightarrow> (ce_request \<Rightarrow> ce_response settled) \<Rightarrow> response" where
  "handle_credits now1 now2 send =
     (case isoDate now1 of
        None \<Rightarrow> credits_fallback
      | Some end' \<Rightarrow>
          (case isoDate (now2 - 365 * 24 * 60 * 60 * 1000) of
             None \<Rightarrow> credits_fallback
           | Some start \<Rightarrow>
               (case send (creditsCmd start end') of
                  Inl err \<Rightarrow> credits_fallback
                | Inr out \<Rightarrow> \<lparr>status = 200, body = CreditsBody (credits_payload_of out)\<rparr>)))"

section \<open>Notions used in the statements\<close>

text \<open>All groups of a response, period by period, in upstream order.\<close>

definition all_groups :: "ce_response \<Rightarrow> group list" where
  "all_groups out = concat (map (\<lambda>r. or_empty (Groups r)) (or_empty (ResultsByTime out)))"

text \<open>The grand total of a summary equals the sum of its five buckets.\<close>

definition balanced :: "summary \<Rightarrow> bool" where
  "balanced s = (s_total s = s_usage s + s_credit s + s_tax s + s_refund s + s_other s)"

text \<open>
  The raw amount and unit strings of a metric, \<^verbatim>\<open>m?.[key]?.Amount\<close> and
  \<^verbatim>\<open>m?.[key]?.Unit\<close>, and a test for strings that cannot be read as a number: after the
  leading white space there is no digit, sign, dot or letter \<^verbatim>\<open>I\<close>.
\<close>

definition raw_amount :: "metrics option \<Rightarrow> string \<Rightarrow> string option" where
  "raw_amount m key =
     (case m of
        None \<Rightarrow> None
      | Some mm \<Rightarrow> (case mm key of None \<Rightarrow> None | Some ob \<Rightarrow> Amount ob))"

definition raw_unit :: "metrics option \<Rightarrow> string \<Rightarrow> string option" where
  "raw_unit m key =
     (case m of
        None \<Rightarrow> None
      | Some mm \<Rightarrow> (case mm key of None \<Rightarrow> None | Some ob \<Rightarrow> Unit ob))"

definition starts_numeric :: "string \<Rightarrow> bool" where
  "starts_numeric s =
     (case dropWhile is_ws s of
        [] \<Rightarrow> False
      | c # _ \<Rightarrow> is_digit c \<or> c \<in> set ''+-.I'')"



definition credit_group :: "string \<Rightarrow> string \<Rightarrow> group" where
  "credit_group k a =
     \<lparr>Keys = Some [k],
      Metrics = Some [''UnblendedCost'' \<mapsto> \<lparr>Amount = Some a, Unit = Some ''USD''\<rparr>]\<rparr>"

definition one_period :: "group list \<Rightarrow> ce_response" where
  "one_period gs =
     \<lparr>ResultsByTime = Some [\<lparr>TimePeriod = None, Total = None, Groups = Some gs\<rparr>]\<rparr>"



text \<open>
  The calendar date of a time value, written \<^verbatim>\<open>YYYY-MM-DD\<close>: the year in four digits,
  the month (counted from 1) and the day of the month in two digits each.
\<close>

definition iso_ymd :: "int \<Rightarrow> string" where
  "iso_ymd t =
     zero_pad 4 (nat (YearFromTime t)) @ ''-'' @ zero_pad 2 (nat (MonthFromTime t + 1))
     @ ''-'' @ zero_pad 2 (nat (DateFromTime t))"

text \<open>The leap days between 1970 and the year \<open>1970 + k\<close>.\<close>

definition leap_days :: "int \<Rightarrow> int" where
  "leap_days k = (k + 1) div 4 - (k + 69) div 100 + (k + 369) div 400"

section \<open>Example inputs\<close>

text \<open>The query \<^verbatim>\<open>?start=2024-01-01&end=2024-01-03&granularity=DAILY&groupBy=NONE\<close>.\<close>

definition rq0 :: raw_query where
  "rq0 = \<lparr>raw_start = Some ''2024-01-01'', raw_end = Some ''2024-01-03'',
          raw_granularity = Some ''DAILY'', raw_groupBy = Some ''NONE''\<rparr>"

text \<open>
  An upstream whose every call is rejected with the same error, two errors, a cache
  holding one entry that expired at time 1000, and another request that, during the await,
  stores a payload under the same key at time 2500.
\<close>

definition always_rejects :: "js_error \<Rightarrow> ce_request \<Rightarrow> ce_response settled" where
  "always_rejects err req = Inl err"

definition access_denied :: js_error where
  "access_denied =
     \<lparr>err_name = Some ''AccessDeniedException'', err_message = Some ''not authorized''\<rparr>"

definition nameless_error :: js_error where
  "nameless_error = \<lparr>err_name = None, err_message = Some ''boom''\<rparr>"

definition payload0 :: payload where
  "payload0 =
     \<lparr>p_start = ''2024-01-01'', p_end = ''2024-01-03'', p_granularity = DAILY,
      p_groupBy = NONE, p_results = [], p_summary = summary0\<rparr>"

definition stale_cache :: "payload cache" where
  "stale_cache =
     [cacheKey ''2024-01-01'' ''2024-01-03'' DAILY NONE
        \<mapsto> \<lparr>expiresAt = 1000, cvalue = payload0\<rparr>]"

definition other_request_stores :: "payload cache \<Rightarrow> payload cache" where
  "other_request_stores c =
     cacheSet 2500 c (cacheKey ''2024-01-01'' ''2024-01-03'' DAILY NONE) payload0"

text \<open>A group whose unblended amount is the string \<^verbatim>\<open>abc\<close>.\<close>

definition group_abc :: group where
  "group_abc =
     \<lparr>Keys = Some [''Usage''],
      Metrics = Some [''UnblendedCost'' \<mapsto> \<lparr>Amount = Some ''abc'', Unit = Some ''USD''\<rparr>]\<rparr>"

section \<open>Properties of the cache\<close>

text \<open>
  Claim C3.  A value stored at time \<open>t0\<close> is returned unchanged by a lookup of the same key
  at any time \<open>t\<close> up to \<open>t0 + 60000\<close> (the entry's \<open>expiresAt\<close>), and that lookup leaves the
  map as it is.  A lookup at a time strictly after an entry's \<open>expiresAt\<close> returns nothing
  and removes the entry.  Whenever a lookup returns a value, the map held an entry with that
  value under the key and the lookup time was not after its \<open>expiresAt\<close>.
\<close>

theorem cache_round_trip_and_expiry:
  "(\<forall>t0 t (c :: 'v cache) k v.
      t \<le> t0 + 60000 \<longrightarrow>
        cacheGet t (cacheSet t0 c k v) k = (Some v, cacheSet t0 c k v))
   \<and> (\<forall>t (c :: 'v cache) k e.
        c k = Some e \<and> t > expiresAt e \<longrightarrow>
          fst (cacheGet t c k) = None \<and> snd (cacheGet t c k) k = None
          \<and> snd (cacheGet t c k) = c(k := None))
   \<and> (\<forall>t (c :: 'v cache) k v.
        fst (cacheGet t c k) = Some v \<longrightarrow>
          (\<exists>e. c k = Some e \<and> cvalue e = v \<and> \<not> t > expiresAt e))"
proof (intro conjI allI impI)
  fix t0 t :: int and c :: "'v cache" and k v
  assume "t \<le> t0 + 60000"
  then show "cacheGet t (cacheSet t0 c k v) k = (Some v, cacheSet t0 c k v)"
    by (simp add: cacheGet_def cacheSet_def CACHE_TTL_MS_def)
next
  fix t :: int and c :: "'v cache" and k e
  assume h: "c k = Some e \<and> t > expiresAt e"
  then show "fst (cacheGet t c k) = None" by (simp add: cacheGet_def)
  from h show "snd (cacheGet t c k) k = None" by (simp add: cacheGet_def)
  from h show "snd (cacheGet t c k) = c(k := None)" by (simp add: cacheGet_def)
next
  fix t :: int and c :: "'v cache" and k v
  assume "fst (cacheGet t c k) = Some v"
  then show "\<exists>e. c k = Some e \<and> cvalue e = v \<and> \<not> t > expiresAt e"
    by (auto simp: cacheGet_def split: option.splits if_splits)
qed

theorem cache_round_trip_and_expiry_witness:
  "cacheGet 61000 (cacheSet 1000 Map.empty ''k'' (7::nat)) ''k''
     = (Some 7, cacheSet 1000 Map.empty ''k'' 7)
   \<and> fst (cacheGet 61001 (cacheSet 1000 Map.empty ''k'' (7::nat)) ''k'') = None
   \<and> snd (cacheGet 61001 (cacheSet 1000 Map.empty ''k'' (7::nat)) ''k'') ''k'' = None"
proof -
  let ?c = "cacheSet 1000 Map.empty ''k'' (7::nat)"
  have e: "?c ''k'' = Some \<lparr>expiresAt = 61000, cvalue = 7\<rparr>"
    by (simp add: cacheSet_def CACHE_TTL_MS_def)
  note rt = cache_round_trip_and_expiry
  have a: "cacheGet 61000 ?c ''k'' = (Some 7, ?c)"
    using rt [THEN conjunct1, rule_format, of 61000 1000 Map.empty "''k''" 7] by simp
  have b: "fst (cacheGet 61001 ?c ''k'') = None \<and> snd (cacheGet 61001 ?c ''k'') ''k'' = None"
    using rt [THEN conjunct2, THEN conjunct1, rule_format, of ?c "''k''" _ 61001] e by simp
  from a b show ?thesis by simp
qed

section \<open>Properties of the number model and of parsing\<close>

lemma plus_Fin [simp]: "Fin a + Fin b = Fin (a + b)"
  by (simp add: plus_jsnum_def)

lemma plus_NaN [simp]: "NaN + x = NaN" "x + NaN = NaN"
  by (cases x; simp add: plus_jsnum_def)+

lemmas parse_defs = parseFloat_def str_decimal_def unsigned_decimal_def is_prefix_def
  span_digits_def is_digit_def is_ws_def exponent_part_def digits_val_def digit_val_def pow10_def
  to_number_def double_overflow_def

section \<open>Properties of the summary classifier\<close>

lemma classify_as_fold: "classify out = foldl classify_group summary0 (all_groups out)"
proof -
  have "foldl classify_period s rs = foldl classify_group s (concat (map (\<lambda>r. or_empty (Groups r)) rs))"
    for s rs
    by (induction rs arbitrary: s) (simp_all add: classify_period_def)
  then show ?thesis by (simp add: classify_def all_groups_def)
qed

lemma balanced_step: "balanced s \<Longrightarrow> balanced (classify_group s g)"
  by (simp add: balanced_def classify_group_def Let_def ac_simps)

lemma balanced_fold: "balanced s \<Longrightarrow> balanced (foldl classify_group s gs)"
  by (induction gs arbitrary: s) (simp_all add: balanced_step)

text \<open>
  Claim C10.  After classification of any record-type summary response, the grand total
  equals the sum of the five buckets usage, credit, tax, refund and other, in the exact
  arithmetic of the number model.
\<close>

theorem summary_total_is_sum_of_buckets:
  "s_total (classify out)
     = s_usage (classify out) + s_credit (classify out) + s_tax (classify out)
       + s_refund (classify out) + s_other (classify out)"
proof -
  have "balanced summary0" by (simp add: balanced_def summary0_def)
  then have "balanced (classify out)" unfolding classify_as_fold by (rule balanced_fold)
  then show ?thesis by (simp add: balanced_def)
qed

text \<open>
  Claim C1.  Classifying one group adds its parsed unblended amount to the grand total and
  to exactly one bucket: credit, tax, refund or usage when the group's first key is exactly
  that word, and other when it is none of the four; every other bucket keeps its value.  The
  classifier applies this step to all groups of all periods, starting from zeros.  A summary
  with one Credit group of amount 12.50 and one Usage group of amount 40.00 yields usage 40,
  credit 12.5, tax 0, refund 0, other 0 and total 52.5.
\<close>

theorem classifier_buckets:
  "(\<forall>s g. s_total (classify_group s g) = s_total s + unblended_amount g
      \<and> s_credit (classify_group s g)
          = (if first_key g = Some ''Credit'' then s_credit s + unblended_amount g else s_credit s)
      \<and> s_tax (classify_group s g)
          = (if first_key g = Some ''Tax'' then s_tax s + unblended_amount g else s_tax s)
      \<and> s_refund (classify_group s g)
          = (if first_key g = Some ''Refund'' then s_refund s + unblended_amount g else s_refund s)
      \<and> s_usage (classify_group s g)
          = (if first_key g = Some ''Usage'' then s_usage s + unblended_amount g else s_usage s)
      \<and> s_other (classify_group s g)
          = (if first_key g \<noteq> Some ''Credit'' \<and> first_key g \<noteq> Some ''Tax''
                \<and> first_key g \<noteq> Some ''Refund'' \<and> first_key g \<noteq> Some ''Usage''
             then s_other s + unblended_amount g else s_other s))
   \<and> (\<forall>out. classify out = foldl classify_group summary0 (all_groups out))
   \<and> classify
        \<lparr>ResultsByTime = Some
           [\<lparr>TimePeriod = tp, Total = tot,
             Groups = Some
               [\<lparr>Keys = Some [''Credit''],
                 Metrics = Some [''UnblendedCost'' \<mapsto> \<lparr>Amount = Some ''12.50'', Unit = u1\<rparr>]\<rparr>,
                \<lparr>Keys = Some [''Usage''],
                 Metrics = Some [''UnblendedCost'' \<mapsto> \<lparr>Amount = Some ''40.00'', Unit = u2\<rparr>]\<rparr>]\<rparr>]\<rparr>
       = \<lparr>s_usage = Fin 40, s_credit = Fin (25 / 2), s_tax = Fin 0, s_refund = Fin 0,
          s_other = Fin 0, s_total = Fin (105 / 2)\<rparr>"
proof (intro conjI allI)
  fix s g
  show "s_total (classify_group s g) = s_total s + unblended_amount g"
    by (simp add: classify_group_def Let_def)
  show "s_credit (classify_group s g)
          = (if first_key g = Some ''Credit'' then s_credit s + unblended_amount g else s_credit s)"
    by (simp add: classify_group_def Let_def)
  show "s_tax (classify_group s g)
          = (if first_key g = Some ''Tax'' then s_tax s + unblended_amount g else s_tax s)"
    by (simp add: classify_group_def Let_def)
  show "s_refund (classify_group s g)
          = (if first_key g = Some ''Refund'' then s_refund s + unblended_amount g else s_refund s)"
    by (simp add: classify_group_def Let_def)
  show "s_usage (classify_group s g)
          = (if first_key g = Some ''Usage'' then s_usage s + unblended_amount g else s_usage s)"
    by (simp add: classify_group_def Let_def)
  show "s_other (classify_group s g)
          = (if first_key g \<noteq> Some ''Credit'' \<and> first_key g \<noteq> Some ''Tax''
                \<and> first_key g \<noteq> Some ''Refund'' \<and> first_key g \<noteq> Some ''Usage''
             then s_other s + unblended_amount g else s_other s)"
    by (simp add: classify_group_def Let_def)
next
  fix out
  show "classify out = foldl classify_group summary0 (all_groups out)"
    by (rule classify_as_fold)
next
  have p1: "parseFloat ''12.50'' = Fin (25 / 2)" by (simp add: parse_defs)
  have p2: "parseFloat ''40.00'' = Fin 40" by (simp add: parse_defs)
  show "classify
        \<lparr>ResultsByTime = Some
           [\<lparr>TimePeriod = tp, Total = tot,
             Groups = Some
               [\<lparr>Keys = Some [''Credit''],
                 Metrics = Some [''UnblendedCost'' \<mapsto> \<lparr>Amount = Some ''12.50'', Unit = u1\<rparr>]\<rparr>,
                \<lparr>Keys = Some [''Usage''],
                 Metrics = Some [''UnblendedCost'' \<mapsto> \<lparr>Amount = Some ''40.00'', Unit = u2\<rparr>]\<rparr>]\<rparr>]\<rparr>
       = \<lparr>s_usage = Fin 40, s_credit = Fin (25 / 2), s_tax = Fin 0, s_refund = Fin 0,
          s_other = Fin 0, s_total = Fin (105 / 2)\<rparr>"
    by (simp add: classify_def classify_period_def classify_group_def or_empty_def first_key_def
        unblended_amount_def summary0_def p1 p2 zero_jsnum_def Let_def)
qed

section \<open>Properties of the cache key\<close>

lemma cacheKey_groupBy_suffix:
  "\<exists>pre. cacheKey s e g gb = pre @ group_by_str gb @ [CHR 0x22, CHR ''}'']"
  by (cases gb) (simp_all add: cacheKey_def json_string_def json_escape_def)

text \<open>
  Claim C9.  Two resolved queries whose \<open>groupBy\<close> values differ have different cache
  keys, whatever their dates and granularities; hence storing a payload under the key of
  the one does not change what a lookup of the key of the other returns.
\<close>

theorem cache_keys_differ_on_groupBy:
  "gb1 \<noteq> gb2 \<longrightarrow>
     cacheKey s1 e1 g1 gb1 \<noteq> cacheKey s2 e2 g2 gb2
     \<and> fst (cacheGet t (cacheSet t0 c (cacheKey s1 e1 g1 gb1) v) (cacheKey s2 e2 g2 gb2))
         = fst (cacheGet t c (cacheKey s2 e2 g2 gb2))"
proof
  assume ne: "gb1 \<noteq> gb2"
  obtain p1 where k1: "cacheKey s1 e1 g1 gb1 = p1 @ group_by_str gb1 @ [CHR 0x22, CHR ''}'']"
    using cacheKey_groupBy_suffix by blast
  obtain p2 where k2: "cacheKey s2 e2 g2 gb2 = p2 @ group_by_str gb2 @ [CHR 0x22, CHR ''}'']"
    using cacheKey_groupBy_suffix by blast
  have diff: "cacheKey s1 e1 g1 gb1 \<noteq> cacheKey s2 e2 g2 gb2"
  proof
    assume "cacheKey s1 e1 g1 gb1 = cacheKey s2 e2 g2 gb2"
    with k1 k2 have "p1 @ group_by_str gb1 = p2 @ group_by_str gb2" by simp
    then have "rev (p1 @ group_by_str gb1) = rev (p2 @ group_by_str gb2)"
      by (rule arg_cong)
    then show False using ne by (cases gb1; cases gb2) simp_all
  qed
  then show "cacheKey s1 e1 g1 gb1 \<noteq> cacheKey s2 e2 g2 gb2
     \<and> fst (cacheGet t (cacheSet t0 c (cacheKey s1 e1 g1 gb1) v) (cacheKey s2 e2 g2 gb2))
         = fst (cacheGet t c (cacheKey s2 e2 g2 gb2))"
    by (auto simp: cacheGet_def cacheSet_def split: option.splits)
qed

theorem cache_keys_differ_on_groupBy_witness:
  "SERVICE \<noteq> NONE
   \<and> cacheKey ''2024-01-01'' ''2024-01-03'' DAILY SERVICE
     \<noteq> cacheKey ''2024-01-01'' ''2024-01-03'' DAILY NONE"
proof -
  have ne: "SERVICE \<noteq> NONE" by simp
  have "cacheKey ''2024-01-01'' ''2024-01-03'' DAILY SERVICE
     \<noteq> cacheKey ''2024-01-01'' ''2024-01-03'' DAILY NONE"
    by (rule conjunct1 [OF cache_keys_differ_on_groupBy [rule_format, OF ne]])
  with ne show ?thesis by simp
qed

section \<open>Properties of the query builder\<close>

text \<open>
  Claim C8.  For a query that passes the schema, with its dates resolved and no live cache
  entry under its key, the first segment of the handler ends waiting for exactly two
  requests.  The detail request has the resolved time range, the requested granularity, the
  six metrics, a grouping by the service dimension exactly when \<open>groupBy\<close> is \<open>SERVICE\<close>
  and a filter excluding the record types Credit and Refund.  The summary request has the
  same time range, monthly granularity, the single metric UnblendedCost, a grouping by the
  record-type dimension and no filter.
\<close>

theorem costs_requests:
  assumes valid: "costsQuerySchema rq = Inr q"
    and e: "resolve_end now q = Some end'"
    and s: "resolve_start now q = Some start"
    and miss: "fst (cacheGet t_get c (cacheKey start end' (q_granularity q) (q_groupBy q))) = None"
  shows "\<exists>ctx detail summ.
           fst (costs_begin now t_get c rq) = Await ctx detail summ
         \<and> detail =
             \<lparr>TimePeriod_Start = start, TimePeriod_End = end',
              Granularity = q_granularity q,
              Metrics_req =
                [''UnblendedCost'', ''AmortizedCost'', ''BlendedCost'', ''UsageQuantity'',
                 ''NetUnblendedCost'', ''NetAmortizedCost''],
              GroupBy =
                (if q_groupBy q = SERVICE
                 then Some [\<lparr>gd_Type = ''DIMENSION'', gd_Key = ''SERVICE''\<rparr>] else None),
              Filter = Some (Not_expr (Dimensions ''RECORD_TYPE'' [''Credit'', ''Refund'']))\<rparr>
         \<and> summ =
             \<lparr>TimePeriod_Start = start, TimePeriod_End = end',
              Granularity = MONTHLY,
              Metrics_req = [''UnblendedCost''],
              GroupBy = Some [\<lparr>gd_Type = ''DIMENSION'', gd_Key = ''RECORD_TYPE''\<rparr>],
              Filter = None\<rparr>
         \<and> length (Metrics_req detail) = 6
         \<and> (GroupBy detail \<noteq> None \<longleftrightarrow> q_groupBy q = SERVICE)"
proof -
  obtain c' where g: "cacheGet t_get c (cacheKey start end' (q_granularity q) (q_groupBy q))
      = (None, c')"
    using miss by (cases "cacheGet t_get c (cacheKey start end' (q_granularity q) (q_groupBy q))") simp
  have "fst (costs_begin now t_get c rq)
      = Await \<lparr>ctx_q = q, ctx_start = start, ctx_end = end',
                ctx_cacheKey = cacheKey start end' (q_granularity q) (q_groupBy q)\<rparr>
          (cmd q start end') (summaryCmd start end')"
    by (simp add: costs_begin_def valid e s g)
  then show ?thesis by (simp add: cmd_def summaryCmd_def)
qed

lemma rq0_valid:
  "costsQuerySchema rq0
     = Inr \<lparr>q_start = Some ''2024-01-01'', q_end = Some ''2024-01-03'',
            q_granularity = DAILY, q_groupBy = NONE\<rparr>"
  by (simp add: costsQuerySchema_def rq0_def optional_date_ok_def date_regex_def is_digit_def
      parse_granularity_def parse_groupBy_def)

theorem costs_requests_witness:
  "\<exists>ctx detail summ.
     fst (costs_begin 0 0 Map.empty rq0) = Await ctx detail summ
     \<and> Granularity detail = DAILY \<and> GroupBy detail = None \<and> Granularity summ = MONTHLY
     \<and> TimePeriod_Start summ = ''2024-01-01'' \<and> TimePeriod_End detail = ''2024-01-03''"
proof -
  let ?q = "\<lparr>q_start = Some ''2024-01-01'', q_end = Some ''2024-01-03'',
            q_granularity = DAILY, q_groupBy = NONE\<rparr>"
  have e: "resolve_end 0 ?q = Some ''2024-01-03''" by (simp add: resolve_end_def)
  have s: "resolve_start 0 ?q = Some ''2024-01-01''" by (simp add: resolve_start_def)
  have miss: "fst (cacheGet 0 (Map.empty :: payload cache)
      (cacheKey ''2024-01-01'' ''2024-01-03'' (q_granularity ?q) (q_groupBy ?q))) = None"
    by (simp add: cacheGet_def)
  from costs_requests [OF rq0_valid e s miss]
  obtain ctx detail summ where
    "fst (costs_begin 0 0 Map.empty rq0) = Await ctx detail summ"
    "detail = \<lparr>TimePeriod_Start = ''2024-01-01'', TimePeriod_End = ''2024-01-03'',
              Granularity = q_granularity ?q,
              Metrics_req =
                [''UnblendedCost'', ''AmortizedCost'', ''BlendedCost'', ''UsageQuantity'',
                 ''NetUnblendedCost'', ''NetAmortizedCost''],
              GroupBy =
                (if q_groupBy ?q = SERVICE
                 then Some [\<lparr>gd_Type = ''DIMENSION'', gd_Key = ''SERVICE''\<rparr>] else None),
              Filter = Some (Not_expr (Dimensions ''RECORD_TYPE'' [''Credit'', ''Refund'']))\<rparr>"
    "summ = \<lparr>TimePeriod_Start = ''2024-01-01'', TimePeriod_End = ''2024-01-03'',
              Granularity = MONTHLY,
              Metrics_req = [''UnblendedCost''],
              GroupBy = Some [\<lparr>gd_Type = ''DIMENSION'', gd_Key = ''RECORD_TYPE''\<rparr>],
              Filter = None\<rparr>"
    by blast
  then show ?thesis by simp
qed

section \<open>Properties of the credits handler on failure\<close>

text \<open>
  Claim C5.  When the upstream call of the credits handler is rejected, the response is 200
  with the payload \<open>total_used = 0\<close>, \<open>by_service = []\<close>; and whatever the clock readings
  and the upstream outcome, the status of the response is 200.
\<close>

theorem credits_failure_is_zero_payload:
  "(isoDate now1 = Some end' \<and> isoDate (now2 - 365 * 24 * 60 * 60 * 1000) = Some start
      \<and> send (creditsCmd start end') = Inl err
    \<longrightarrow> handle_credits now1 now2 send
          = \<lparr>status = 200, body = CreditsBody \<lparr>total_used = 0, by_service = []\<rparr>\<rparr>)
   \<and> status (handle_credits now1 now2 send) = 200"
  by (simp add: handle_credits_def credits_fallback_def split: option.splits sum.splits)

theorem credits_failure_is_zero_payload_witness:
  "isoDate 1704067200000 = Some ''2024-01-01''
   \<and> isoDate (1704067200000 - 365 * 24 * 60 * 60 * 1000) = Some ''2023-01-01''
   \<and> handle_credits 1704067200000 1704067200000 (always_rejects access_denied)
        = \<lparr>status = 200, body = CreditsBody \<lparr>total_used = 0, by_service = []\<rparr>\<rparr>"
proof -
  have a: "isoDate 1704067200000 = Some ''2024-01-01''" by code_simp
  have b: "isoDate (1704067200000 - 365 * 24 * 60 * 60 * 1000) = Some ''2023-01-01''"
    by code_simp
  have c: "always_rejects access_denied (creditsCmd ''2023-01-01'' ''2024-01-01'') = Inl access_denied"
    by (simp add: always_rejects_def)
  from credits_failure_is_zero_payload
    [of 1704067200000 "''2024-01-01''" 1704067200000 "''2023-01-01''"
        "always_rejects access_denied" access_denied, THEN conjunct1, rule_format] a b c
  show ?thesis by simp
qed


section \<open>Properties of the costs handler on failure\<close>

lemma Promise_all_rejects:
  assumes "(\<exists>e. p1 = Inl e) \<or> (\<exists>e. p2 = Inl e)"
  shows "\<exists>err. (p1 = Inl err \<or> p2 = Inl err) \<and> Promise_all sf p1 p2 = Inl err"
  using assms by (cases p1; cases p2) (auto simp: Promise_all_def)

text \<open>
  Claim C6, as amended.  For a valid query with resolved dates and no live cache entry under
  its key, if either of the two upstream calls is rejected then the join of the two is
  rejected with the error of one of them, and the response is 500 with the fixed error text
  and a message built from that error: its name, a colon and its message (empty when
  absent) when the error has a non-empty name, and the text \<open>Unknown error\<close> otherwise.
  Nothing is written to the cache: whatever other requests have made of the cache during
  the await, the failing request leaves it exactly as it finds it.
\<close>

theorem costs_upstream_failure:
  assumes valid: "costsQuerySchema rq = Inr q"
    and e: "resolve_end now q = Some end'"
    and s: "resolve_start now q = Some start"
    and key: "key = cacheKey start end' (q_granularity q) (q_groupBy q)"
    and miss: "fst (cacheGet t_get c key) = None"
    and fail: "(\<exists>e. send (cmd q start end') = Inl e) \<or> (\<exists>e. send (summaryCmd start end') = Inl e)"
  shows "\<exists>err.
           (send (cmd q start end') = Inl err \<or> send (summaryCmd start end') = Inl err)
         \<and> Promise_all sf (send (cmd q start end')) (send (summaryCmd start end')) = Inl err
         \<and> fst (handle_costs now t_get t_set sf send during c rq)
             = Some \<lparr>status = 500,
                     body = ErrorBody ''Failed to fetch costs from AWS Cost Explorer''
                       (case err_name err of
                          None \<Rightarrow> ''Unknown error''
                        | Some n \<Rightarrow>
                            if n = [] then ''Unknown error''
                            else n @ '': '' @ (case err_message err of None \<Rightarrow> [] | Some m \<Rightarrow> m))\<rparr>
         \<and> snd (handle_costs now t_get t_set sf send during c rq)
             = during (snd (cacheGet t_get c key))
         \<and> (\<forall>t c2 ctx. snd (costs_finish t c2 ctx (Inl err)) = c2)"
proof -
  obtain c' where g: "cacheGet t_get c key = (None, c')"
    using miss by (cases "cacheGet t_get c key") simp
  have c': "c' = snd (cacheGet t_get c key)" by (simp add: g)
  obtain err where err: "send (cmd q start end') = Inl err \<or> send (summaryCmd start end') = Inl err"
    and pa: "Promise_all sf (send (cmd q start end')) (send (summaryCmd start end')) = Inl err"
    using Promise_all_rejects [OF fail] by blast
  have b: "costs_begin now t_get c rq
      = (Await \<lparr>ctx_q = q, ctx_start = start, ctx_end = end', ctx_cacheKey = key\<rparr>
          (cmd q start end') (summaryCmd start end'), c')"
    using g by (simp add: costs_begin_def valid e s key)
  have h: "handle_costs now t_get t_set sf send during c rq
      = (Some \<lparr>status = 500,
                body = ErrorBody ''Failed to fetch costs from AWS Cost Explorer''
                         (error_message err)\<rparr>, during c')"
    by (simp add: handle_costs_def b pa costs_finish_def)
  have f: "\<forall>t c2 ctx. snd (costs_finish t c2 ctx (Inl err)) = c2"
    by (simp add: costs_finish_def)
  show ?thesis
    by (rule exI [of _ err]) (simp add: h err pa f c' [symmetric] error_message_def)
qed

lemma handle_costs_rq0_rejected:
  assumes m: "fst (cacheGet t_get c (cacheKey ''2024-01-01'' ''2024-01-03'' DAILY NONE)) = None"
  shows "handle_costs now t_get t_set sf (always_rejects err) during c rq0
     = (Some \<lparr>status = 500,
               body = ErrorBody ''Failed to fetch costs from AWS Cost Explorer'' (error_message err)\<rparr>,
        during (snd (cacheGet t_get c (cacheKey ''2024-01-01'' ''2024-01-03'' DAILY NONE))))"
proof -
  obtain c' where g: "cacheGet t_get c (cacheKey ''2024-01-01'' ''2024-01-03'' DAILY NONE) = (None, c')"
    using m by (cases "cacheGet t_get c (cacheKey ''2024-01-01'' ''2024-01-03'' DAILY NONE)") simp
  show ?thesis
    by (simp add: handle_costs_def costs_begin_def rq0_valid resolve_end_def resolve_start_def g
        always_rejects_def Promise_all_def costs_finish_def)
qed

lemma stale_lookup:
  "cacheGet 2000 stale_cache (cacheKey ''2024-01-01'' ''2024-01-03'' DAILY NONE)
     = (None, Map.empty)"
  by (simp add: cacheGet_def stale_cache_def)

text \<open>
  The claim as stated fails on an error without a name: both calls are rejected with an
  error whose message is \<open>boom\<close>, and the message of the response is \<open>Unknown error\<close>,
  which carries neither the kind nor the message of the error.
\<close>

theorem costs_upstream_failure_counterexample:
  "err_message nameless_error = Some ''boom''
   \<and> fst (handle_costs 0 2000 3000 False (always_rejects nameless_error) id Map.empty rq0)
     = Some \<lparr>status = 500,
              body = ErrorBody ''Failed to fetch costs from AWS Cost Explorer'' ''Unknown error''\<rparr>"
  by (simp add: handle_costs_rq0_rejected cacheGet_def error_message_def nameless_error_def)

text \<open>
  The witness has another request store a payload under the same key during the await: the
  failing request answers 500 and the entry of the other request is still there.
\<close>

theorem costs_upstream_failure_witness:
  "fst (handle_costs 0 2000 3000 False (always_rejects access_denied) other_request_stores
          stale_cache rq0)
     = Some \<lparr>status = 500,
              body = ErrorBody ''Failed to fetch costs from AWS Cost Explorer''
                       ''AccessDeniedException: not authorized''\<rparr>
   \<and> snd (handle_costs 0 2000 3000 False (always_rejects access_denied) other_request_stores
          stale_cache rq0)
       (cacheKey ''2024-01-01'' ''2024-01-03'' DAILY NONE)
     = Some \<lparr>expiresAt = 62500, cvalue = payload0\<rparr>"
proof -
  let ?q = "\<lparr>q_start = Some ''2024-01-01'', q_end = Some ''2024-01-03'',
            q_granularity = DAILY, q_groupBy = NONE\<rparr>"
  let ?key = "cacheKey ''2024-01-01'' ''2024-01-03'' DAILY NONE"
  have e: "resolve_end 0 ?q = Some ''2024-01-03''" by (simp add: resolve_end_def)
  have s: "resolve_start 0 ?q = Some ''2024-01-01''" by (simp add: resolve_start_def)
  have key: "?key = cacheKey ''2024-01-01'' ''2024-01-03'' (q_granularity ?q) (q_groupBy ?q)"
    by simp
  have miss: "fst (cacheGet 2000 stale_cache ?key) = None" by (simp add: stale_lookup)
  have fail: "(\<exists>e. always_rejects access_denied (cmd ?q ''2024-01-01'' ''2024-01-03'') = Inl e)
      \<or> (\<exists>e. always_rejects access_denied (summaryCmd ''2024-01-01'' ''2024-01-03'') = Inl e)"
    by (simp add: always_rejects_def)
  from costs_upstream_failure [OF rq0_valid e s key miss fail,
      where t_set = 3000 and sf = False and during = other_request_stores]
  obtain err where
    1: "always_rejects access_denied (cmd ?q ''2024-01-01'' ''2024-01-03'') = Inl err
        \<or> always_rejects access_denied (summaryCmd ''2024-01-01'' ''2024-01-03'') = Inl err"
    and 2: "fst (handle_costs 0 2000 3000 False (always_rejects access_denied)
                  other_request_stores stale_cache rq0)
             = Some \<lparr>status = 500,
                     body = ErrorBody ''Failed to fetch costs from AWS Cost Explorer''
                       (case err_name err of
                          None \<Rightarrow> ''Unknown error''
                        | Some n \<Rightarrow>
                            if n = [] then ''Unknown error''
                            else n @ '': '' @ (case err_message err of None \<Rightarrow> [] | Some m \<Rightarrow> m))\<rparr>"
    and 3: "snd (handle_costs 0 2000 3000 False (always_rejects access_denied)
                  other_request_stores stale_cache rq0)
              = other_request_stores (snd (cacheGet 2000 stale_cache ?key))"
    by blast
  from 1 have "err = access_denied" by (simp add: always_rejects_def)
  with 2 3 show ?thesis
    by (simp add: access_denied_def stale_lookup other_request_stores_def cacheSet_def
        CACHE_TTL_MS_def)
qed

section \<open>Properties of amount parsing\<close>

lemma str_decimal_not_numeric:
  assumes "\<not> is_digit c" and "c \<notin> set ''+-.I''"
  shows "str_decimal (c # r) = None"
  using assms
  by (simp add: str_decimal_def unsigned_decimal_def is_prefix_def span_digits_def)

lemma parseFloat_not_numeric:
  assumes "\<not> starts_numeric a"
  shows "parseFloat a = NaN"
proof (cases "dropWhile is_ws a")
  case Nil
  show ?thesis unfolding parseFloat_def Nil by (simp add: str_decimal_def)
next
  case (Cons c r)
  with assms have "\<not> is_digit c" "c \<notin> set ''+-.I''" by (simp_all add: starts_numeric_def)
  then have "str_decimal (c # r) = None" by (rule str_decimal_not_numeric)
  then show ?thesis unfolding parseFloat_def Cons by simp
qed

lemma dropWhile_snoc_keep:
  assumes "\<not> P c"
  shows "\<exists>xs. dropWhile P (ys @ [c]) = xs @ [c]"
  using assms by (induction ys) auto

lemma trim_head:
  assumes "dropWhile is_ws a = c # r"
  shows "\<exists>t. trim a = c # t"
proof -
  have nc: "\<not> is_ws c" using assms by (metis hd_dropWhile list.sel(1) list.distinct(1))
  obtain xs where "dropWhile is_ws (rev r @ [c]) = xs @ [c]"
    using dropWhile_snoc_keep [of is_ws c "rev r"] nc by blast
  then show ?thesis unfolding trim_def assms by simp
qed

lemma Number_not_numeric:
  assumes "\<not> starts_numeric a" and "trim a \<noteq> []"
  shows "Number_of_string a = NaN"
proof (cases "dropWhile is_ws a")
  case Nil
  have "trim a = []" unfolding trim_def Nil by simp
  with assms show ?thesis by simp
next
  case (Cons c r)
  with assms have c: "\<not> is_digit c" "c \<notin> set ''+-.I''" by (simp_all add: starts_numeric_def)
  obtain t where t: "trim a = c # t" using trim_head [OF Cons] by blast
  have c0: "c \<noteq> CHR ''0''" using c(1) by (auto simp: is_digit_def)
  have "str_decimal (c # t) = None" using c by (rule str_decimal_not_numeric)
  then show ?thesis using c0 by (simp add: Number_of_string_def t is_prefix_def)
qed

text \<open>
  Claim C2, as amended.  In the result normalizer the amount of a metric is 0 when the raw
  amount is absent and the value of \<^verbatim>\<open>Number\<close> on the raw string otherwise; in the
  summary classifier the amount is 0 when the raw amount is absent or empty and the value
  of \<^verbatim>\<open>parseFloat\<close> on the raw string otherwise.  A string that does not begin, after
  white space, with a digit, a sign, a dot or the letter I is read as \<^verbatim>\<open>NaN\<close> by both
  (by \<^verbatim>\<open>Number\<close> unless it is all white space).  The unit is \<^verbatim>\<open>USD\<close> when the raw
  unit is absent and the raw unit otherwise, and a group without the UsageQuantity metric
  normalizes to amount 0 with unit \<^verbatim>\<open>USD\<close> for usage.  All of these functions are total:
  no input makes them throw.
\<close>

theorem amount_parsing:
  "(raw_amount m key = None \<longrightarrow> amount (getMetric m key) = 0)
   \<and> (raw_amount m key = Some a \<longrightarrow> amount (getMetric m key) = Number_of_string a)
   \<and> (raw_amount (Metrics g) ''UnblendedCost'' = None
        \<or> raw_amount (Metrics g) ''UnblendedCost'' = Some [] \<longrightarrow> unblended_amount g = 0)
   \<and> (raw_amount (Metrics g) ''UnblendedCost'' = Some a \<and> a \<noteq> []
        \<longrightarrow> unblended_amount g = parseFloat a)
   \<and> (\<not> starts_numeric a \<longrightarrow> parseFloat a = NaN)
   \<and> (\<not> starts_numeric a \<and> trim a \<noteq> [] \<longrightarrow> Number_of_string a = NaN)
   \<and> (raw_unit m key = None \<longrightarrow> unit (getMetric m key) = ''USD'')
   \<and> (raw_unit m key = Some u \<longrightarrow> unit (getMetric m key) = u)
   \<and> (mm ''UsageQuantity'' = None \<and> Metrics g = Some mm
        \<longrightarrow> m_usage (g_metrics (normalize_group g)) = \<lparr>amount = 0, unit = ''USD''\<rparr>)"
proof (intro conjI impI)
  have z: "parseFloat ''0'' = 0" by (simp add: parse_defs zero_jsnum_def)
  show "amount (getMetric m key) = 0" if "raw_amount m key = None"
    using that by (simp add: getMetric_def raw_amount_def zero_jsnum_def split: option.splits)
  show "amount (getMetric m key) = Number_of_string a" if "raw_amount m key = Some a"
    using that by (simp add: getMetric_def raw_amount_def split: option.splits)
  show "unblended_amount g = 0"
    if "raw_amount (Metrics g) ''UnblendedCost'' = None
        \<or> raw_amount (Metrics g) ''UnblendedCost'' = Some []"
    using that by (auto simp: unblended_amount_def raw_amount_def z split: option.splits)
  show "unblended_amount g = parseFloat a"
    if "raw_amount (Metrics g) ''UnblendedCost'' = Some a \<and> a \<noteq> []"
    using that by (auto simp: unblended_amount_def raw_amount_def split: option.splits)
  show "parseFloat a = NaN" if "\<not> starts_numeric a"
    using that by (rule parseFloat_not_numeric)
  show "Number_of_string a = NaN" if "\<not> starts_numeric a \<and> trim a \<noteq> []"
    using that Number_not_numeric by blast
  show "unit (getMetric m key) = ''USD''" if "raw_unit m key = None"
    using that by (simp add: getMetric_def raw_unit_def split: option.splits)
  show "unit (getMetric m key) = u" if "raw_unit m key = Some u"
    using that by (simp add: getMetric_def raw_unit_def split: option.splits)
  show "m_usage (g_metrics (normalize_group g)) = \<lparr>amount = 0, unit = ''USD''\<rparr>"
    if "mm ''UsageQuantity'' = None \<and> Metrics g = Some mm"
    using that by (simp add: normalize_group_def metricSet_def getMetric_def zero_jsnum_def)
qed

text \<open>
  The claim as stated fails on a non-numeric amount: for the string \<^verbatim>\<open>abc\<close> both the
  normalizer and the classifier yield \<^verbatim>\<open>NaN\<close>, not 0.
\<close>

theorem amount_parsing_counterexample:
  "amount (getMetric (Metrics group_abc) ''UnblendedCost'') \<noteq> 0
   \<and> unblended_amount group_abc \<noteq> 0"
proof -
  have "Number_of_string ''abc'' = NaN"
    by (simp add: parse_defs Number_of_string_def trim_def)
  moreover have "parseFloat ''abc'' = NaN" by (simp add: parse_defs)
  ultimately show ?thesis
    by (simp add: group_abc_def getMetric_def unblended_amount_def zero_jsnum_def)
qed

theorem amount_parsing_witness:
  "unblended_amount group_abc = NaN
   \<and> amount (getMetric (Metrics group_abc) ''UnblendedCost'') = NaN
   \<and> unit (getMetric (Metrics group_abc) ''UnblendedCost'') = ''USD''
   \<and> m_usage (g_metrics (normalize_group group_abc)) = \<lparr>amount = 0, unit = ''USD''\<rparr>
   \<and> amount (getMetric (Metrics group_abc) ''UsageQuantity'') = 0
   \<and> unit (getMetric (Metrics group_abc) ''UsageQuantity'') = ''USD''"
proof -
  note ap = amount_parsing
  have ra: "raw_amount (Metrics group_abc) ''UnblendedCost'' = Some ''abc''"
    by (simp add: raw_amount_def group_abc_def)
  have ru: "raw_unit (Metrics group_abc) ''UnblendedCost'' = Some ''USD''"
    by (simp add: raw_unit_def group_abc_def)
  have rn: "raw_amount (Metrics group_abc) ''UsageQuantity'' = None"
    "raw_unit (Metrics group_abc) ''UsageQuantity'' = None"
    by (simp_all add: raw_amount_def raw_unit_def group_abc_def)
  have ns: "\<not> starts_numeric ''abc''" by (simp add: starts_numeric_def is_ws_def is_digit_def)
  have tr: "trim ''abc'' \<noteq> []" by (simp add: trim_def is_ws_def)
  have 1: "unblended_amount group_abc = parseFloat ''abc''"
    using ap [of "Metrics group_abc" "''UnblendedCost''" "''abc''" group_abc] ra by simp
  have 2: "parseFloat ''abc'' = NaN" "Number_of_string ''abc'' = NaN"
    using ap [of "Metrics group_abc" "''UnblendedCost''" "''abc''" group_abc] ns tr by simp_all
  have 3: "amount (getMetric (Metrics group_abc) ''UnblendedCost'') = Number_of_string ''abc''"
    using ap [of "Metrics group_abc" "''UnblendedCost''" "''abc''" group_abc] ra by simp
  have 4: "unit (getMetric (Metrics group_abc) ''UnblendedCost'') = ''USD''"
    using ap [of "Metrics group_abc" "''UnblendedCost''" "''abc''" group_abc "''USD''"] ru by simp
  have 5: "amount (getMetric (Metrics group_abc) ''UsageQuantity'') = 0"
    "unit (getMetric (Metrics group_abc) ''UsageQuantity'') = ''USD''"
    using ap [of "Metrics group_abc" "''UsageQuantity''" "''abc''" group_abc] rn by simp_all
  have 6: "m_usage (g_metrics (normalize_group group_abc)) = \<lparr>amount = 0, unit = ''USD''\<rparr>"
    using ap [of "Metrics group_abc" "''UsageQuantity''" "''abc''" group_abc "''USD''"
        "[''UnblendedCost'' \<mapsto> \<lparr>Amount = Some ''abc'', Unit = Some ''USD''\<rparr>]"]
    by (simp add: group_abc_def)
  from 1 2 3 4 5 6 show ?thesis by simp
qed

section \<open>Properties of the credits aggregator\<close>

lemma credits_fold_all_groups:
  "credits_fold out = foldl credits_group (0, []) (all_groups out)"
proof -
  have "foldl credits_period acc rs
      = foldl credits_group acc (concat (map (\<lambda>r. or_empty (Groups r)) rs))" for acc rs
    by (induction rs arbitrary: acc) (simp_all add: credits_period_def)
  then show ?thesis by (simp add: credits_fold_def all_groups_def)
qed






























lemma all_groups_one_period [simp]: "all_groups (one_period gs) = gs"
  by (simp add: all_groups_def one_period_def or_empty_def)

lemma amount_credit_group:
  "unblended_amount (credit_group k a) = parseFloat (if a = [] then ''0'' else a)"
  by (simp add: unblended_amount_def credit_group_def)

lemma service_credit_group:
  "service_of (credit_group k a) = (if k = [] then ''Unknown'' else k)"
  by (simp add: service_of_def first_key_def credit_group_def)

lemma parse_examples:
  "parseFloat ''-5.00'' = Fin (- 5)" "parseFloat ''-3.00'' = Fin (- 3)"
  "parseFloat ''abc'' = NaN" "parseFloat ''1'' = Fin 1" "parseFloat ''2'' = Fin 2"
  "parseFloat ''-2'' = Fin (- 2)" "parseFloat ''1e400'' = PInf" "parseFloat ''-1e400'' = NInf"
  "parseFloat ''1e308'' = Fin (10 ^ 308)"
  by (simp_all add: parse_defs)

lemmas credits_eval = credits_payload_of_def credits_fold_all_groups credits_group_def
  amount_credit_group service_credit_group parse_examples or_zero_def zero_jsnum_def Let_def
  Array_sort_def by_amount_desc_def js_sub_def js_add_def to_number_def double_overflow_def



text \<open>
  Amounts beyond the range of doubles are not finite: \<^verbatim>\<open>1e400\<close> is read as an infinity,
  the sum of service A below becomes \<^verbatim>\<open>NaN\<close>, and so does \<open>total_used\<close>.
\<close>

lemma credits_overflow_example:
  "\<not> is_finite (unblended_amount (credit_group ''A'' ''1e400''))
   \<and> credits_payload_of
        (one_period [credit_group ''A'' ''1e400'', credit_group ''A'' ''-1e400'',
                     credit_group ''B'' ''-2''])
       = \<lparr>total_used = NaN,
          by_service = [\<lparr>service = ''A'', svc_amount = NaN\<rparr>,
                        \<lparr>service = ''B'', svc_amount = Fin 2\<rparr>]\<rparr>"
  by (simp add: credits_eval plus_jsnum_def)

text \<open>
  Finite amounts whose sum is beyond the range of doubles: the sum of service A overflows
  to an infinity, and so does the total.
\<close>

lemma credits_sum_overflow_example:
  "is_finite (unblended_amount (credit_group ''A'' ''1e308''))
   \<and> credits_payload_of
        (one_period [credit_group ''B'' ''-2'', credit_group ''A'' ''1e308'',
                     credit_group ''A'' ''1e308''])
       = \<lparr>total_used = PInf,
          by_service = [\<lparr>service = ''A'', svc_amount = PInf\<rparr>,
                        \<lparr>service = ''B'', svc_amount = Fin 2\<rparr>]\<rparr>"
  by (simp add: credits_eval plus_jsnum_def)


section \<open>Properties of dates and of the default time range\<close>

lemma int_div_bounds:
  fixes x n :: int
  assumes "0 < n"
  shows "n * (x div n) \<le> x" and "x < n * (x div n) + n"
  using assms mult_div_mod_eq [of n x] pos_mod_bound [of n x] pos_mod_sign [of n x]
  by linarith+

lemma leap_aux:
  fixes a b c k :: int
  assumes "4 * a \<le> k + 1" and "k + 69 < 100 * b + 100" and "400 * c \<le> k + 369"
  shows "400 * (a - b + c) < 97 * k + 593"
proof -
  have "400 * a \<le> 100 * k + 100" using assms(1) by simp
  moreover have "- (400 * b) < - (4 * k) + 124" using assms(2) by simp
  ultimately show ?thesis using assms(3) by (simp add: algebra_simps)
qed

lemma leap_days_bound: "400 * leap_days k < 97 * k + 593"
  unfolding leap_days_def
  by (rule leap_aux) (simp_all add: int_div_bounds)

lemma DayFromYear_leap: "DayFromYear (1970 + k) = 365 * k + leap_days k"
  by (simp add: DayFromYear_def leap_days_def add.commute)

lemma leap_days_nonneg:
  assumes k: "0 \<le> k"
  shows "leap_days k \<le> k"
proof -
  consider "k = 0" | "k = 1" | "2 \<le> k" using k by linarith
  then show ?thesis
  proof cases
    case 1 then show ?thesis by (simp add: leap_days_def)
  next
    case 2 then show ?thesis by (simp add: leap_days_def)
  next
    case 3 with leap_days_bound [of k] show ?thesis by linarith
  qed
qed

lemma leap_days_neg:
  assumes k: "k < 0"
  shows "leap_days k \<le> 0"
proof -
  consider "k = - 1" | "k \<le> - 2" using k by linarith
  then show ?thesis
  proof cases
    case 1 then show ?thesis by (simp add: leap_days_def)
  next
    case 2 with leap_days_bound [of k] show ?thesis by linarith
  qed
qed

lemma year_guess_le: "DayFromYear (year_guess d) \<le> d"
proof (cases "0 \<le> d")
  case True
  define k where "k = d div 366"
  have k2: "366 * k \<le> d" unfolding k_def by (rule int_div_bounds(1)) simp
  have k1: "0 \<le> k" unfolding k_def using True by (simp add: pos_imp_zdiv_nonneg_iff)
  have g: "year_guess d = 1970 + k" using True by (simp only: year_guess_def k_def if_True)
  have "365 * k + leap_days k \<le> d" using leap_days_nonneg [OF k1] k2 by linarith
  then show ?thesis by (simp only: g DayFromYear_leap)
next
  case False
  define k where "k = d div 365"
  have k2: "365 * k \<le> d" unfolding k_def by (rule int_div_bounds(1)) simp
  have k1: "k < 0" unfolding k_def using False by (simp add: neg_imp_zdiv_neg_iff)
  have g: "year_guess d = 1970 + k" using False by (simp only: year_guess_def k_def if_False)
  have "365 * k + leap_days k \<le> d" using leap_days_neg [OF k1] k2 by linarith
  then show ?thesis by (simp only: g DayFromYear_leap)
qed

lemma DayFromYear_mono:
  assumes "a \<le> b"
  shows "DayFromYear a \<le> DayFromYear b"
  using assms
proof (induction "nat (b - a)" arbitrary: b)
  case 0
  then show ?case by simp
next
  case (Suc n)
  then have "n = nat ((b - 1) - a)" "a \<le> b - 1" by linarith+
  then have "DayFromYear a \<le> DayFromYear (b - 1)" using Suc.hyps(1) by blast
  with DayFromYear_less [of "b - 1"] show ?case by simp
qed

lemma year_search_spec:
  assumes "DayFromYear y \<le> d"
  shows "DayFromYear (year_search d y) \<le> d \<and> d < DayFromYear (year_search d y + 1)"
  using assms
proof (induction d y rule: year_search.induct)
  case (1 d y)
  show ?case
  proof (cases "DayFromYear (y + 1) \<le> d")
    case True
    then have "year_search d y = year_search d (y + 1)" by (subst year_search.simps) simp
    with "1.IH" [OF True True] show ?thesis by simp
  next
    case False
    then have "year_search d y = y" by (subst year_search.simps) simp
    with False "1.prems" show ?thesis by simp
  qed
qed

lemma YearFromTime_spec:
  "DayFromYear (YearFromTime t) \<le> Day t" "Day t < DayFromYear (YearFromTime t + 1)"
  using year_search_spec [OF year_guess_le [of "Day t"]] by (simp_all add: YearFromTime_def)

lemma DayWithinYear_bounds:
  "0 \<le> DayWithinYear t" "DayWithinYear t < 365 + InLeapYear t"
proof -
  let ?y = "YearFromTime t"
  show "0 \<le> DayWithinYear t" using YearFromTime_spec(1) [of t] by (simp add: DayWithinYear_def)
  have "DaysInYear ?y = 365 + InLeapYear t"
    using DaysInYear_cases [of ?y] by (auto simp: InLeapYear_def)
  then show "DayWithinYear t < 365 + InLeapYear t"
    using YearFromTime_spec(2) [of t] DayFromYear_Suc [of ?y] by (simp add: DayWithinYear_def)
qed

lemma InLeapYear_cases: "InLeapYear t = 0 \<or> InLeapYear t = 1"
  by (simp add: InLeapYear_def)

lemma month_of_bounds: "0 \<le> month_of d l" "month_of d l \<le> 11"
  by (simp_all add: month_of_def)

lemma date_of_bounds:
  assumes "0 \<le> d" and "d < 365 + l" and "l = 0 \<or> l = 1"
  shows "1 \<le> date_of d l" and "date_of d l \<le> 31"
  using assms unfolding date_of_def month_of_def Let_def
  by (auto split: if_splits)

lemma Month_Date_bounds:
  "0 \<le> MonthFromTime t" "MonthFromTime t \<le> 11" "1 \<le> DateFromTime t" "DateFromTime t \<le> 31"
  using month_of_bounds [of "DayWithinYear t" "InLeapYear t"]
    date_of_bounds [OF DayWithinYear_bounds InLeapYear_cases, of t]
  by (simp_all add: MonthFromTime_def DateFromTime_def)

lemma Day_bounds:
  assumes "- 62167219200000 \<le> t" and "t \<le> 253402300799999"
  shows "- 719528 \<le> Day t" and "Day t \<le> 2932896"
proof -
  have "(- 62167219200000) div 86400000 \<le> t div (86400000::int)"
    by (rule zdiv_mono1 [OF assms(1)]) simp
  then show "- 719528 \<le> Day t" by (simp add: Day_def msPerDay_def)
  have "t div 86400000 \<le> 253402300799999 div (86400000::int)"
    by (rule zdiv_mono1 [OF assms(2)]) simp
  then show "Day t \<le> 2932896" by (simp add: Day_def msPerDay_def)
qed

lemma Year_bounds:
  assumes "- 62167219200000 \<le> t" and "t \<le> 253402300799999"
  shows "0 \<le> YearFromTime t" and "YearFromTime t \<le> 9999"
proof -
  let ?y = "YearFromTime t"
  have d0: "DayFromYear 0 = - 719528" by (simp add: DayFromYear_def)
  have d1: "DayFromYear 10000 = 2932897" by (simp add: DayFromYear_def)
  note db = Day_bounds [OF assms]
  show "0 \<le> ?y"
  proof (rule ccontr)
    assume "\<not> 0 \<le> ?y"
    then have "?y + 1 \<le> 0" by simp
    then have "DayFromYear (?y + 1) \<le> DayFromYear 0" by (rule DayFromYear_mono)
    with YearFromTime_spec(2) [of t] db(1) d0 show False by linarith
  qed
  show "?y \<le> 9999"
  proof (rule ccontr)
    assume "\<not> ?y \<le> 9999"
    then have "10000 \<le> ?y" by simp
    then have "DayFromYear 10000 \<le> DayFromYear ?y" by (rule DayFromYear_mono)
    with YearFromTime_spec(1) [of t] db(2) d1 show False by linarith
  qed
qed

lemma Day_minus_30: "Day (t - 30 * 24 * 60 * 60 * 1000) = Day t - 30"
proof -
  have "(t + (- 30) * 86400000) div 86400000 = - 30 + t div (86400000::int)"
    by (rule div_mult_self1) simp
  then have "(t - 2592000000) div 86400000 = t div (86400000::int) - 30" by simp
  then show ?thesis by (simp add: Day_def msPerDay_def)
qed

lemma is_digit_digit_char:
  assumes "n < 10"
  shows "is_digit (digit_char n)"
proof -
  have "list_all (\<lambda>k. is_digit (digit_char k)) [0..<10]" by code_simp
  then show ?thesis using assms by (simp add: list_all_iff)
qed

lemma decimal_small: "n < 10 \<Longrightarrow> decimal n = [digit_char n]"
  by (subst decimal.simps) simp

lemma decimal_large: "10 \<le> n \<Longrightarrow> decimal n = decimal (n div 10) @ [digit_char (n mod 10)]"
  by (subst decimal.simps) simp

lemma decimal_digits: "list_all is_digit (decimal n)"
proof (induction n rule: decimal.induct)
  case (1 n)
  show ?case
  proof (cases "n < 10")
    case True
    then show ?thesis by (simp add: decimal_small is_digit_digit_char)
  next
    case False
    then show ?thesis using "1.IH" by (simp add: decimal_large is_digit_digit_char)
  qed
qed

lemma length_decimal_2: "n < 100 \<Longrightarrow> length (decimal n) \<le> 2"
  by (cases "n < 10") (simp_all add: decimal_small decimal_large)

lemma length_decimal_3: "n < 1000 \<Longrightarrow> length (decimal n) \<le> 3"
  using length_decimal_2 [of "n div 10"]
  by (cases "n < 10") (simp_all add: decimal_small decimal_large)

lemma length_decimal_4: "n < 10000 \<Longrightarrow> length (decimal n) \<le> 4"
  using length_decimal_3 [of "n div 10"]
  by (cases "n < 10") (simp_all add: decimal_small decimal_large)

lemma zero_pad_digits: "list_all is_digit (zero_pad k n)"
proof -
  have "is_digit (CHR ''0'')" by (simp add: is_digit_def)
  then have "list_all is_digit (replicate m (CHR ''0''))" for m
    by (simp add: list_all_iff)
  then show ?thesis by (simp add: zero_pad_def decimal_digits)
qed

lemma zero_pad_length: "length (decimal n) \<le> k \<Longrightarrow> length (zero_pad k n) = k"
  by (simp add: zero_pad_def)

lemma date_regex_parts:
  assumes "length a = 4" "list_all is_digit a" "length b = 2" "list_all is_digit b"
    "length c = 2" "list_all is_digit c"
  shows "date_regex (a @ ''-'' @ b @ ''-'' @ c)"
  using assms by (auto simp: numeral_eq_Suc length_Suc_conv date_regex_def)

lemma iso_ymd_format:
  assumes "- 62167219200000 \<le> t" and "t \<le> 253402300799999"
  shows "length (iso_ymd t) = 10" and "date_regex (iso_ymd t)"
proof -
  let ?y = "zero_pad 4 (nat (YearFromTime t))"
  let ?m = "zero_pad 2 (nat (MonthFromTime t + 1))"
  let ?d = "zero_pad 2 (nat (DateFromTime t))"
  have "nat (YearFromTime t) < 10000" using Year_bounds [OF assms] by simp
  then have ly: "length ?y = 4" by (intro zero_pad_length length_decimal_4)
  have "nat (MonthFromTime t + 1) < 100" using Month_Date_bounds(1,2) [of t] by simp
  then have lm: "length ?m = 2" by (intro zero_pad_length length_decimal_2)
  have "nat (DateFromTime t) < 100" using Month_Date_bounds(3,4) [of t] by simp
  then have ld: "length ?d = 2" by (intro zero_pad_length length_decimal_2)
  show "length (iso_ymd t) = 10" by (simp add: iso_ymd_def ly lm ld)
  show "date_regex (iso_ymd t)"
    unfolding iso_ymd_def by (rule date_regex_parts [OF ly zero_pad_digits lm zero_pad_digits ld zero_pad_digits])
qed

lemma isoDate_ymd:
  assumes "- 62167219200000 \<le> t" and "t \<le> 253402300799999"
  shows "isoDate t = Some (iso_ymd t)"
proof -
  have r: "\<not> \<bar>t\<bar> > 8640000000000000" using assms by simp
  have y: "0 \<le> YearFromTime t \<and> YearFromTime t \<le> 9999" using Year_bounds [OF assms] by simp
  have "\<exists>rest. toISOString t = Some (iso_ymd t @ rest)"
    by (simp add: toISOString_def Let_def r y iso_ymd_def)
  then obtain rest where "toISOString t = Some (iso_ymd t @ rest)" by blast
  then show ?thesis by (simp add: isoDate_def iso_ymd_format(1) [OF assms])
qed

text \<open>
  Claim C7.  For a clock reading \<open>now\<close> such that \<open>now\<close> and the time 30 days before it lie
  in the years 0000 to 9999 (UTC): an omitted \<open>end\<close> resolves to the calendar date of
  \<open>now\<close> and an omitted \<open>start\<close> to the calendar date of the time 30 days earlier, whose
  day number is that of \<open>now\<close> minus 30; both are strings of the form \<^verbatim>\<open>YYYY-MM-DD\<close>
  (they match the regular expression of the query schema).  A given \<open>start\<close> or \<open>end\<close> is
  kept.
\<close>

theorem default_dates:
  assumes lo: "- 62164627200000 \<le> now" and hi: "now \<le> 253402300799999"
  shows "(q_end q = None \<longrightarrow> resolve_end now q = Some (iso_ymd now))
       \<and> (q_start q = None \<longrightarrow>
            resolve_start now q = Some (iso_ymd (now - 30 * 24 * 60 * 60 * 1000)))
       \<and> (\<forall>e. q_end q = Some e \<longrightarrow> resolve_end now q = Some e)
       \<and> (\<forall>s. q_start q = Some s \<longrightarrow> resolve_start now q = Some s)
       \<and> date_regex (iso_ymd now)
       \<and> date_regex (iso_ymd (now - 30 * 24 * 60 * 60 * 1000))
       \<and> Day (now - 30 * 24 * 60 * 60 * 1000) = Day now - 30"
proof -
  have lo1: "- 62167219200000 \<le> now" using lo by simp
  have lo2: "- 62167219200000 \<le> now - 30 * 24 * 60 * 60 * 1000" using lo by simp
  have hi2: "now - 30 * 24 * 60 * 60 * 1000 \<le> 253402300799999" using hi by simp
  have 1: "isoDate now = Some (iso_ymd now)" by (rule isoDate_ymd [OF lo1 hi])
  have 2: "isoDate (now - 30 * 24 * 60 * 60 * 1000)
      = Some (iso_ymd (now - 30 * 24 * 60 * 60 * 1000))"
    by (rule isoDate_ymd [OF lo2 hi2])
  have 3: "date_regex (iso_ymd now)" by (rule iso_ymd_format(2) [OF lo1 hi])
  have 4: "date_regex (iso_ymd (now - 30 * 24 * 60 * 60 * 1000))"
    by (rule iso_ymd_format(2) [OF lo2 hi2])
  have 5: "Day (now - 30 * 24 * 60 * 60 * 1000) = Day now - 30" by (rule Day_minus_30)
  have a: "q_end q = None \<longrightarrow> resolve_end now q = Some (iso_ymd now)"
    using 1 by (simp add: resolve_end_def)
  have b: "q_start q = None \<longrightarrow>
            resolve_start now q = Some (iso_ymd (now - 30 * 24 * 60 * 60 * 1000))"
    using 2 by (simp add: resolve_start_def)
  have c: "\<forall>e. q_end q = Some e \<longrightarrow> resolve_end now q = Some e"
    by (simp add: resolve_end_def)
  have d: "\<forall>s. q_start q = Some s \<longrightarrow> resolve_start now q = Some s"
    by (simp add: resolve_start_def)
  from a b c d 3 4 5 show ?thesis by blast
qed

theorem default_dates_witness:
  "resolve_end 1704067200000
     \<lparr>q_start = None, q_end = None, q_granularity = DAILY, q_groupBy = SERVICE\<rparr>
     = Some ''2024-01-01''
   \<and> resolve_start 1704067200000
       \<lparr>q_start = None, q_end = None, q_granularity = DAILY, q_groupBy = SERVICE\<rparr>
     = Some ''2023-12-02''
   \<and> date_regex ''2024-01-01'' \<and> date_regex ''2023-12-02''"
proof -
  let ?q = "\<lparr>q_start = None, q_end = None, q_granularity = DAILY, q_groupBy = SERVICE\<rparr>"
  have y1: "iso_ymd 1704067200000 = ''2024-01-01''" by code_simp
  have y2: "iso_ymd (1704067200000 - 30 * 24 * 60 * 60 * 1000) = ''2023-12-02''" by code_simp
  have lo: "- 62164627200000 \<le> (1704067200000::int)" by simp
  have hi: "(1704067200000::int) \<le> 253402300799999" by simp
  note dd = default_dates [OF lo hi, of ?q]
  have e: "resolve_end 1704067200000 ?q = Some (iso_ymd 1704067200000)" using dd by simp
  have s: "resolve_start 1704067200000 ?q
      = Some (iso_ymd (1704067200000 - 30 * 24 * 60 * 60 * 1000))"
    using dd by simp
  have r1: "date_regex (iso_ymd 1704067200000)" using dd by blast
  have r2: "date_regex (iso_ymd (1704067200000 - 30 * 24 * 60 * 60 * 1000))" using dd by blast
  from e s r1 r2 show ?thesis unfolding y1 y2 by simp
qed

end
